theory Spec2Isabelle
  imports Main "HOL-Library.Word"
begin

unbundle bit_operations_syntax

section \<open>Python strings\<close>

text \<open>
  A Python \<open>str\<close> is a sequence of Unicode code points, and \<open>len\<close>, \<open>strip\<close>, \<open>split\<close>
  and \<open>replace\<close> all work on code points. The model is a list of code points as natural
  numbers; \<open>py\<close> turns an ASCII literal into such a list.
\<close>

type_synonym pystr = "nat list"

definition py :: "string \<Rightarrow> pystr" where
  "py s = map of_char s"

text \<open>
  The code points that \<open>str.strip()\<close> removes when called without an argument (those for
  which \<open>str.isspace\<close> holds).
\<close>

definition is_space :: "nat \<Rightarrow> bool" where
  "is_space c \<longleftrightarrow> c \<in> set [0x9, 0xA, 0xB, 0xC, 0xD, 0x1C, 0x1D, 0x1E, 0x1F, 0x20, 0x85, 0xA0,
     0x1680, 0x2000, 0x2001, 0x2002, 0x2003, 0x2004, 0x2005, 0x2006, 0x2007, 0x2008, 0x2009,
     0x200A, 0x2028, 0x2029, 0x202F, 0x205F, 0x3000]"

definition lstrip :: "pystr \<Rightarrow> pystr" where
  "lstrip s = dropWhile is_space s"

definition rstrip :: "pystr \<Rightarrow> pystr" where
  "rstrip s = rev (dropWhile is_space (rev s))"

definition strip :: "pystr \<Rightarrow> pystr" where
  "strip s = rstrip (lstrip s)"

definition startswith :: "pystr \<Rightarrow> pystr \<Rightarrow> bool" where
  "startswith s p \<longleftrightarrow> take (length p) s = p"

text \<open>\<open>s.split('=', 1)[0]\<close>: the text before the first \<open>=\<close> (all of \<open>s\<close> when there is none).\<close>

definition split_eq_first :: "pystr \<Rightarrow> pystr" where
  "split_eq_first s = takeWhile (\<lambda>c. c \<noteq> 0x3D) s"

text \<open>\<open>s.replace(':', '\\:')\<close>: every colon becomes a backslash followed by a colon.\<close>

fun replace_colon :: "pystr \<Rightarrow> pystr" where
  "replace_colon [] = []"
| "replace_colon (c # cs) = (if c = 0x3A then [0x5C, 0x3A] else [c]) @ replace_colon cs"

section \<open>The line transformation of \<open>update_server_properties\<close>\<close>

text \<open>
  A dict literal keeps its keys in insertion order: an association list, looked up with
  \<open>map_of\<close>. \<open>resource_pack_keys\<close> below is the only mapping the code builds.
\<close>

type_synonym managed = "(pystr \<times> pystr) list"

definition resource_pack_keys :: "pystr \<Rightarrow> pystr \<Rightarrow> pystr \<Rightarrow> managed" where
  "resource_pack_keys escaped_url hash_str pack_uuid =
     [(py ''resource-pack'', escaped_url),
      (py ''resource-pack-sha1'', hash_str),
      (py ''resource-pack-id'', pack_uuid)]"

text \<open>The f-string \<open>f"{key}={value}\n"\<close>.\<close>

definition key_value_line :: "pystr \<Rightarrow> pystr \<Rightarrow> pystr" where
  "key_value_line key v = key @ [0x3D] @ v @ [0xA]"

text \<open>
  The \<open>for line in lines\<close> loop, with its two accumulators \<open>updated_keys\<close> and
  \<open>new_lines\<close> passed along.
\<close>

fun patch_loop :: "managed \<Rightarrow> pystr list \<Rightarrow> pystr set \<times> pystr list \<Rightarrow> pystr set \<times> pystr list" where
  "patch_loop M [] st = st"
| "patch_loop M (line # lines) (updated_keys, new_lines) =
     (let stripped = strip line in
      if stripped = [] \<or> startswith stripped (py ''#'') then
        patch_loop M lines (updated_keys, new_lines @ [line])
      else if 0x3D \<in> set stripped then
        (let key = strip (split_eq_first stripped) in
         case map_of M key of
           Some v \<Rightarrow> patch_loop M lines (insert key updated_keys, new_lines @ [key_value_line key v])
         | None \<Rightarrow> patch_loop M lines (updated_keys, new_lines @ [line]))
      else patch_loop M lines (updated_keys, new_lines @ [line]))"

text \<open>The second loop: \<open>for key, value in resource_pack_keys.items()\<close>.\<close>

fun append_missing :: "managed \<Rightarrow> pystr set \<Rightarrow> pystr list \<Rightarrow> pystr list" where
  "append_missing [] updated_keys new_lines = new_lines"
| "append_missing ((key, v) # rest) updated_keys new_lines =
     (if key \<notin> updated_keys then append_missing rest updated_keys (new_lines @ [key_value_line key v])
      else append_missing rest updated_keys new_lines)"

definition patch_lines :: "managed \<Rightarrow> pystr list \<Rightarrow> pystr list" where
  "patch_lines M lines =
     (case patch_loop M lines ({}, []) of
        (updated_keys, new_lines) \<Rightarrow> append_missing M updated_keys new_lines)"

section \<open>Notions used to state the properties\<close>

text \<open>
  \<open>line_key\<close> is the key the loop reads off a line (\<open>None\<close> for a blank line, a comment
  and a line without \<open>=\<close>), \<open>rewrite_line\<close> what one iteration appends to \<open>new_lines\<close>,
  \<open>keys_seen\<close> the keys of all key=value lines of a document, \<open>occurrences\<close> the number of
  lines carrying a key, and \<open>wf_key\<close> says that a key is read back from its own
  \<open>key=value\<close> line.
\<close>

definition line_key :: "pystr \<Rightarrow> pystr option" where
  "line_key line =
     (let stripped = strip line in
      if stripped = [] \<or> startswith stripped (py ''#'') then None
      else if 0x3D \<in> set stripped then Some (strip (split_eq_first stripped))
      else None)"

definition rewrite_line :: "managed \<Rightarrow> pystr \<Rightarrow> pystr" where
  "rewrite_line M line =
     (case line_key line of
        None \<Rightarrow> line
      | Some key \<Rightarrow> (case map_of M key of Some v \<Rightarrow> key_value_line key v | None \<Rightarrow> line))"

definition keys_seen :: "pystr list \<Rightarrow> pystr set" where
  "keys_seen lines = set (List.map_filter line_key lines)"

definition wf_key :: "pystr \<Rightarrow> bool" where
  "wf_key k \<longleftrightarrow> strip k = k \<and> 0x3D \<notin> set k \<and> \<not> startswith k (py ''#'')"

definition wf_managed :: "managed \<Rightarrow> bool" where
  "wf_managed M \<longleftrightarrow> distinct (map fst M) \<and> list_all wf_key (map fst M)"

definition occurrences :: "pystr \<Rightarrow> pystr list \<Rightarrow> nat" where
  "occurrences k lines = length (filter (\<lambda>l. line_key l = Some k) lines)"

definition managed_line :: "managed \<Rightarrow> pystr \<Rightarrow> bool" where
  "managed_line M line \<longleftrightarrow> (case line_key line of None \<Rightarrow> False | Some k \<Rightarrow> map_of M k \<noteq> None)"

section \<open>Bytes and UTF-8\<close>

text \<open>
  \<open>bytes(name, "utf-8")\<close> and the text layer of \<open>open(..., encoding='utf-8')\<close> use the strict
  UTF-8 codec: encoding raises \<open>UnicodeEncodeError\<close> on a surrogate code point (a \<open>str\<close> can
  hold one, for instance from a command-line argument that is not valid UTF-8), decoding
  raises \<open>UnicodeDecodeError\<close> on any byte sequence that is not well-formed UTF-8.
\<close>

type_synonym byte = "8 word"

datatype py_error = UnicodeEncodeError | UnicodeDecodeError

definition utf8_encode_char :: "nat \<Rightarrow> byte list option" where
  "utf8_encode_char c =
     (if c < 0x80 then Some [of_nat c]
      else if c < 0x800 then Some [of_nat (0xC0 + c div 0x40), of_nat (0x80 + c mod 0x40)]
      else if 0xD800 \<le> c \<and> c \<le> 0xDFFF then None
      else if c < 0x10000 then
        Some [of_nat (0xE0 + c div 0x1000), of_nat (0x80 + c div 0x40 mod 0x40), of_nat (0x80 + c mod 0x40)]
      else if c < 0x110000 then
        Some [of_nat (0xF0 + c div 0x40000), of_nat (0x80 + c div 0x1000 mod 0x40),
              of_nat (0x80 + c div 0x40 mod 0x40), of_nat (0x80 + c mod 0x40)]
      else None)"

fun utf8_encode :: "pystr \<Rightarrow> py_error + byte list" where
  "utf8_encode [] = Inr []"
| "utf8_encode (c # cs) =
     (case utf8_encode_char c of
        None \<Rightarrow> Inl UnicodeEncodeError
      | Some bs \<Rightarrow> (case utf8_encode cs of Inl e \<Rightarrow> Inl e | Inr rest \<Rightarrow> Inr (bs @ rest)))"

definition is_cont :: "byte \<Rightarrow> bool" where
  "is_cont b \<longleftrightarrow> 0x80 \<le> unat b \<and> unat b \<le> 0xBF"

definition cont_bits :: "byte \<Rightarrow> nat" where
  "cont_bits b = unat b - 0x80"

text \<open>
  One code point from the front of a byte string: the code point and the number of bytes it
  took, or \<open>None\<close> when the bytes do not start with a well-formed sequence (a stray or missing
  continuation byte, an overlong form, a surrogate, a value above U+10FFFF).
\<close>

definition utf8_decode_char :: "byte list \<Rightarrow> (nat \<times> nat) option" where
  "utf8_decode_char bs =
     (case bs of
        [] \<Rightarrow> None
      | b0 # r \<Rightarrow>
          (let n = unat b0 in
           if n < 0x80 then Some (n, 1)
           else if 0xC2 \<le> n \<and> n \<le> 0xDF then
             (case r of
                b1 # _ \<Rightarrow> if is_cont b1 then Some ((n - 0xC0) * 0x40 + cont_bits b1, 2) else None
              | _ \<Rightarrow> None)
           else if 0xE0 \<le> n \<and> n \<le> 0xEF then
             (case r of
                b1 # b2 # _ \<Rightarrow>
                  (let c = (n - 0xE0) * 0x1000 + cont_bits b1 * 0x40 + cont_bits b2 in
                   if is_cont b1 \<and> is_cont b2 \<and> 0x800 \<le> c \<and> \<not> (0xD800 \<le> c \<and> c \<le> 0xDFFF)
                   then Some (c, 3) else None)
              | _ \<Rightarrow> None)
           else if 0xF0 \<le> n \<and> n \<le> 0xF4 then
             (case r of
                b1 # b2 # b3 # _ \<Rightarrow>
                  (let c = (n - 0xF0) * 0x40000 + cont_bits b1 * 0x1000 + cont_bits b2 * 0x40 + cont_bits b3 in
                   if is_cont b1 \<and> is_cont b2 \<and> is_cont b3 \<and> 0x10000 \<le> c \<and> c < 0x110000
                   then Some (c, 4) else None)
              | _ \<Rightarrow> None)
           else None))"

function utf8_decode :: "byte list \<Rightarrow> py_error + pystr" where
  "utf8_decode bs =
     (if bs = [] then Inr []
      else case utf8_decode_char bs of
        None \<Rightarrow> Inl UnicodeDecodeError
      | Some (c, k) \<Rightarrow>
          (case utf8_decode (drop (max 1 k) bs) of Inl e \<Rightarrow> Inl e | Inr cs \<Rightarrow> Inr (c # cs)))"
  by pat_completeness auto
termination
  by (relation "measure length") auto

declare utf8_decode.simps [simp del]

section \<open>SHA-1 and \<open>uuid.uuid5\<close>\<close>

text \<open>
  \<open>hashlib.sha1\<close> as FIPS 180-4 defines it: the message is padded to a multiple of 64 bytes
  and every block goes through 80 rounds on five 32-bit words.
\<close>

type_synonym u32 = "32 word"

definition sha1_pad :: "byte list \<Rightarrow> byte list" where
  "sha1_pad m =
     (let n = (of_nat (8 * length m) :: 64 word) in
      m @ [0x80] @ replicate ((119 - length m mod 64) mod 64) 0
        @ [ucast (drop_bit 56 n), ucast (drop_bit 48 n), ucast (drop_bit 40 n), ucast (drop_bit 32 n),
           ucast (drop_bit 24 n), ucast (drop_bit 16 n), ucast (drop_bit 8 n), ucast n])"

fun be_words :: "byte list \<Rightarrow> u32 list" where
  "be_words (a # b # c # d # r) =
     (push_bit 24 (ucast a) OR push_bit 16 (ucast b) OR push_bit 8 (ucast c) OR ucast d) # be_words r"
| "be_words _ = []"

fun sha1_schedule :: "nat \<Rightarrow> u32 list \<Rightarrow> u32 list" where
  "sha1_schedule 0 w = w"
| "sha1_schedule (Suc n) w =
     (let t = length w in
      sha1_schedule n (w @ [word_rotl 1 (w ! (t - 3) XOR w ! (t - 8) XOR w ! (t - 14) XOR w ! (t - 16))]))"

definition sha1_f :: "nat \<Rightarrow> u32 \<Rightarrow> u32 \<Rightarrow> u32 \<Rightarrow> u32" where
  "sha1_f t b c d =
     (if t < 20 then (b AND c) OR (NOT b AND d)
      else if t < 40 then b XOR c XOR d
      else if t < 60 then (b AND c) OR (b AND d) OR (c AND d)
      else b XOR c XOR d)"

definition sha1_k :: "nat \<Rightarrow> u32" where
  "sha1_k t = (if t < 20 then 0x5A827999 else if t < 40 then 0x6ED9EBA1
               else if t < 60 then 0x8F1BBCDC else 0xCA62C1D6)"

type_synonym sha1_state = "u32 \<times> u32 \<times> u32 \<times> u32 \<times> u32"

fun sha1_rounds :: "nat \<Rightarrow> u32 list \<Rightarrow> sha1_state \<Rightarrow> sha1_state" where
  "sha1_rounds t [] s = s"
| "sha1_rounds t (w # ws) (a, b, c, d, e) =
     sha1_rounds (Suc t) ws (word_rotl 5 a + sha1_f t b c d + e + sha1_k t + w, a, word_rotl 30 b, c, d)"

definition sha1_block :: "sha1_state \<Rightarrow> byte list \<Rightarrow> sha1_state" where
  "sha1_block h block =
     (case h of (h0, h1, h2, h3, h4) \<Rightarrow>
      case sha1_rounds 0 (sha1_schedule 64 (be_words block)) h of (a, b, c, d, e) \<Rightarrow>
        (h0 + a, h1 + b, h2 + c, h3 + d, h4 + e))"

function sha1_blocks :: "sha1_state \<Rightarrow> byte list \<Rightarrow> sha1_state" where
  "sha1_blocks h bs = (if bs = [] then h else sha1_blocks (sha1_block h (take 64 bs)) (drop 64 bs))"
  by pat_completeness auto
termination
  by (relation "measure (\<lambda>(h, bs). length bs)") auto

declare sha1_blocks.simps [simp del]

definition word_bytes :: "u32 \<Rightarrow> byte list" where
  "word_bytes w = [ucast (drop_bit 24 w), ucast (drop_bit 16 w), ucast (drop_bit 8 w), ucast w]"

definition sha1 :: "byte list \<Rightarrow> byte list" where
  "sha1 m =
     (case sha1_blocks (0x67452301, 0xEFCDAB89, 0x98BADCFE, 0x10325476, 0xC3D2E1F0) (sha1_pad m) of
        (h0, h1, h2, h3, h4) \<Rightarrow>
          word_bytes h0 @ word_bytes h1 @ word_bytes h2 @ word_bytes h3 @ word_bytes h4)"

text \<open>
  \<open>uuid.uuid5(namespace, name)\<close> is \<open>UUID(bytes=sha1(namespace.bytes + bytes(name, "utf-8")).digest()[:16], version=5)\<close>.
  The constructor reads the 16 bytes as a big-endian integer and sets the variant and version
  bits; \<open>str\<close> prints the integer as 32 hexadecimal digits in groups of 8, 4, 4, 4 and 12.
\<close>

definition NAMESPACE_DNS :: "byte list" where
  "NAMESPACE_DNS =
     [0x6b, 0xa7, 0xb8, 0x10, 0x9d, 0xad, 0x11, 0xd1, 0x80, 0xb4, 0x00, 0xc0, 0x4f, 0xd4, 0x30, 0xc8]"

type_synonym uuid = "128 word"

definition int_from_bytes :: "byte list \<Rightarrow> uuid" where
  "int_from_bytes bs = foldl (\<lambda>acc b. push_bit 8 acc OR ucast b) 0 bs"

definition uuid_from_bytes :: "byte list \<Rightarrow> uuid" where
  "uuid_from_bytes bs =
     (let i = int_from_bytes bs;
          i = i AND NOT (push_bit 48 0xc000);
          i = i OR push_bit 48 0x8000;
          i = i AND NOT (push_bit 64 0xf000);
          i = i OR push_bit 76 5
      in i)"

definition hex_digit :: "nat \<Rightarrow> nat" where
  "hex_digit n = (if n < 10 then 0x30 + n else 0x57 + n)"

definition hex32 :: "uuid \<Rightarrow> pystr" where
  "hex32 w = map (\<lambda>i. hex_digit (unat (drop_bit (4 * (31 - i)) w AND 0xF))) [0..<32]"

definition uuid_str :: "uuid \<Rightarrow> pystr" where
  "uuid_str w =
     (let hex = hex32 w in
      take 8 hex @ [0x2D] @ take 4 (drop 8 hex) @ [0x2D] @ take 4 (drop 12 hex) @ [0x2D]
        @ take 4 (drop 16 hex) @ [0x2D] @ drop 20 hex)"

definition uuid5 :: "byte list \<Rightarrow> pystr \<Rightarrow> py_error + uuid" where
  "uuid5 namespace name =
     (case utf8_encode name of
        Inl e \<Rightarrow> Inl e
      | Inr b \<Rightarrow> Inr (uuid_from_bytes (take 16 (sha1 (namespace @ b)))))"

definition generate_pack_uuid :: "pystr \<Rightarrow> py_error + pystr" where
  "generate_pack_uuid hash_str =
     (case uuid5 NAMESPACE_DNS (py ''bitterharvest-pack-'' @ hash_str) of
        Inl e \<Rightarrow> Inl e
      | Inr u \<Rightarrow> Inr (uuid_str u))"

text \<open>
  Strings that UTF-8 can encode (no surrogate code point), and the content hashes the build
  produces: 40 hexadecimal digits.
\<close>

definition encodable :: "pystr \<Rightarrow> bool" where
  "encodable s \<longleftrightarrow> list_all (\<lambda>c. c < 0xD800 \<or> (0xDFFF < c \<and> c < 0x110000)) s"


text \<open>
  Strings of ASCII characters, and the bits of a digest that \<open>uuid5\<close> keeps: those of its
  first 16 bytes but for the four version bits and the two variant bits.
\<close>

definition isascii :: "pystr \<Rightarrow> bool" where
  "isascii s \<longleftrightarrow> list_all (\<lambda>c. c < 0x80) s"


section \<open>Text files, the console and \<open>update_server_properties\<close>\<close>

text \<open>
  The part of the operating system the function touches: the files, as byte strings by path,
  the platform's line separator (\<open>os.linesep\<close>), and the characters above ASCII that
  \<open>sys.stdout\<close> can encode (all of them where its error handler replaces, as the script
  arranges on Windows). A file opened in text mode with \<open>encoding='utf-8'\<close> decodes on
  reading and turns CR LF and a lone CR into LF; \<open>readlines\<close> cuts the text behind every LF.
  On writing, each LF becomes the line separator and every string is encoded when it is
  written.
\<close>

record os_state =
  files :: "pystr \<Rightarrow> byte list option"
  linesep :: pystr
  stdout_encodes :: "nat \<Rightarrow> bool"

text \<open>
  \<open>print(s)\<close> raises \<open>UnicodeEncodeError\<close> when \<open>sys.stdout\<close> cannot encode a character of
  \<open>s\<close>; every encoding is taken to encode ASCII. What reaches the console is not recorded.
\<close>

definition print :: "os_state \<Rightarrow> pystr \<Rightarrow> py_error option" where
  "print os s =
     (if list_all (\<lambda>c. c < 0x80 \<or> stdout_encodes os c) s then None else Some UnicodeEncodeError)"

fun universal_newlines :: "pystr \<Rightarrow> pystr" where
  "universal_newlines [] = []"
| "universal_newlines [c] = [if c = 0xD then 0xA else c]"
| "universal_newlines (c # d # cs) =
     (if c = 0xD \<and> d = 0xA then 0xA # universal_newlines cs
      else if c = 0xD then 0xA # universal_newlines (d # cs)
      else c # universal_newlines (d # cs))"

fun split_lines :: "pystr \<Rightarrow> pystr \<Rightarrow> pystr list" where
  "split_lines cur [] = (if cur = [] then [] else [cur])"
| "split_lines cur (c # cs) =
     (if c = 0xA then (cur @ [c]) # split_lines [] cs else split_lines (cur @ [c]) cs)"

definition readlines :: "byte list \<Rightarrow> py_error + pystr list" where
  "readlines content =
     (case utf8_decode content of
        Inl e \<Rightarrow> Inl e
      | Inr text \<Rightarrow> Inr (split_lines [] (universal_newlines text)))"

definition write_translate :: "pystr \<Rightarrow> pystr \<Rightarrow> pystr" where
  "write_translate sep s = concat (map (\<lambda>c. if c = 0xA then sep else [c]) s)"

text \<open>
  \<open>f.writelines(new_lines)\<close> on a file just opened with mode \<open>'w'\<close>: \<open>out\<close> is what the
  file holds so far. A line that cannot be encoded raises, and the file keeps the lines
  written before it.
\<close>

fun writelines :: "pystr \<Rightarrow> pystr list \<Rightarrow> byte list \<Rightarrow> py_error option \<times> byte list" where
  "writelines sep [] out = (None, out)"
| "writelines sep (line # lines) out =
     (case utf8_encode (write_translate sep line) of
        Inl e \<Rightarrow> (Some e, out)
      | Inr bs \<Rightarrow> writelines sep lines (out @ bs))"

text \<open>
  Lines 655 to 666 of the source: the UUID, the escaped URL and the dict of the three keys.
\<close>

definition managed_values :: "pystr \<Rightarrow> pystr \<Rightarrow> py_error + managed" where
  "managed_values url hash_str =
     (case generate_pack_uuid hash_str of
        Inl e \<Rightarrow> Inl e
      | Inr pack_uuid \<Rightarrow>
          (let escaped_url = replace_colon url
           in Inr (resource_pack_keys escaped_url hash_str pack_uuid)))"

text \<open>
  The three messages of lines 701 to 703; \<open>pack_uuid\<close> is the value of the third key.
\<close>

definition print_updated :: "os_state \<Rightarrow> managed \<Rightarrow> py_error option" where
  "print_updated os keys =
     (case print os (py ''  '' @ [0x2713] @ py '' Updated resource-pack URL'') of
        Some e \<Rightarrow> Some e
      | None \<Rightarrow>
          (case print os (py ''  '' @ [0x2713] @ py '' Updated resource-pack-sha1'') of
             Some e \<Rightarrow> Some e
           | None \<Rightarrow>
               (case map_of keys (py ''resource-pack-id'') of
                  None \<Rightarrow> None
                | Some pack_uuid \<Rightarrow>
                    print os (py ''  '' @ [0x2713] @ py '' Updated resource-pack-id: '' @ pack_uuid))))"

text \<open>
  The body of the \<open>try\<close> statement, lines 652 to 704: the exception that leaves it, if one
  does, and the state then. Opening the file for writing empties it before the first line is
  written.
\<close>

definition try_body :: "os_state \<Rightarrow> pystr \<Rightarrow> byte list \<Rightarrow> pystr \<Rightarrow> pystr \<Rightarrow> py_error option \<times> os_state" where
  "try_body os properties_path content url hash_str =
     (case readlines content of
        Inl e \<Rightarrow> (Some e, os)
      | Inr lines \<Rightarrow>
          (case managed_values url hash_str of
             Inl e \<Rightarrow> (Some e, os)
           | Inr keys \<Rightarrow>
               (case writelines (linesep os) (patch_lines keys lines) [] of
                  (Some e, out) \<Rightarrow> (Some e, os\<lparr>files := (files os)(properties_path \<mapsto> out)\<rparr>)
                | (None, out) \<Rightarrow>
                    (let os' = os\<lparr>files := (files os)(properties_path \<mapsto> out)\<rparr>
                     in (print_updated os' keys, os')))))"

text \<open>
  The function prints its heading and the message for a missing file outside the \<open>try\<close>
  statement: an exception there leaves the function (\<open>Inl\<close>). It returns \<open>False\<close> when the path
  does not exist, and \<open>False\<close> again from its \<open>except Exception\<close> clause when anything inside
  the \<open>try\<close> statement raises, unless printing the failure raises in turn. The text of the
  exception in that message is ASCII and is left out of the string.
\<close>

definition update_server_properties :: "os_state \<Rightarrow> pystr \<Rightarrow> pystr \<Rightarrow> pystr \<Rightarrow> (py_error + bool) \<times> os_state" where
  "update_server_properties os properties_path url hash_str =
     (case print os ([0xA, 0x1F4DD] @ py '' Updating server.properties: '' @ properties_path) of
        Some e \<Rightarrow> (Inl e, os)
      | None \<Rightarrow>
          (case files os properties_path of
             None \<Rightarrow>
               (case print os (py ''  '' @ [0x2717] @ py '' File not found'') of
                  Some e \<Rightarrow> (Inl e, os)
                | None \<Rightarrow> (Inr False, os))
           | Some content \<Rightarrow>
               (case try_body os properties_path content url hash_str of
                  (None, os') \<Rightarrow> (Inr True, os')
                | (Some e, os') \<Rightarrow>
                    (case print os' (py ''  '' @ [0x2717] @ py '' Failed: '') of
                       Some e' \<Rightarrow> (Inl e', os')
                     | None \<Rightarrow> (Inr False, os')))))"

text \<open>The bytes of the lines that can be encoded, in order.\<close>

definition encoded_lines :: "pystr \<Rightarrow> pystr list \<Rightarrow> byte list" where
  "encoded_lines sep ls =
     concat (map (\<lambda>l. case utf8_encode (write_translate sep l) of Inl e \<Rightarrow> [] | Inr bs \<Rightarrow> bs) ls)"


section \<open>Lemmas on stripping and on the loops\<close>

lemma keys_seen_Nil: "keys_seen [] = {}"
  by (simp add: keys_seen_def List.map_filter_simps)

lemma keys_seen_Cons:
  "keys_seen (l # ls) = (case line_key l of None \<Rightarrow> keys_seen ls | Some k \<Rightarrow> insert k (keys_seen ls))"
  by (simp add: keys_seen_def List.map_filter_simps split: option.splits)

lemma patch_loop_eq:
  "patch_loop M lines (u, n) =
     (u \<union> (keys_seen lines \<inter> dom (map_of M)), n @ map (rewrite_line M) lines)"
proof (induction lines arbitrary: u n)
  case Nil
  show ?case by (simp add: keys_seen_Nil)
next
  case (Cons l ls)
  show ?case
    by (auto simp: Cons.IH keys_seen_Cons line_key_def rewrite_line_def Let_def split: option.splits)
qed

lemma append_missing_eq:
  "append_missing M u n = n @ map (\<lambda>(k, v). key_value_line k v) (filter (\<lambda>(k, v). k \<notin> u) M)"
  by (induction M u n rule: append_missing.induct) auto

lemma patch_lines_eq:
  "patch_lines M D =
     map (rewrite_line M) D @ map (\<lambda>(k, v). key_value_line k v) (filter (\<lambda>(k, v). k \<notin> keys_seen D) M)"
proof -
  have "filter (\<lambda>(k, v). k \<notin> {} \<union> (keys_seen D \<inter> dom (map_of M))) M = filter (\<lambda>(k, v). k \<notin> keys_seen D) M"
    by (rule filter_cong) (auto simp: dom_map_of_conv_image_fst rev_image_eqI)
  then show ?thesis
    by (simp add: patch_lines_def patch_loop_eq append_missing_eq)
qed

lemma not_space_eq: "\<not> is_space 0x3D"
  by (simp add: is_space_def)

lemma rstrip_prefix: "\<exists>r. s = rstrip s @ r \<and> (\<forall>c\<in>set r. is_space c)"
proof -
  have "rev s = takeWhile is_space (rev s) @ dropWhile is_space (rev s)" by simp
  then have "s = rev (dropWhile is_space (rev s)) @ rev (takeWhile is_space (rev s))"
    by (metis rev_append rev_rev_ident)
  moreover have "\<forall>c\<in>set (rev (takeWhile is_space (rev s))). is_space c"
    by (auto dest: set_takeWhileD)
  ultimately show ?thesis unfolding rstrip_def by blast
qed

lemma rstrip_snoc_nonspace: "\<not> is_space c \<Longrightarrow> rstrip (a @ c # w) = a @ c # rstrip w"
  by (simp add: rstrip_def dropWhile_append)

lemma rstrip_idem: "rstrip (rstrip s) = rstrip s"
  by (simp add: rstrip_def)

lemma lstrip_nonspace: "\<not> is_space c \<Longrightarrow> lstrip (c # w) = c # w"
  by (simp add: lstrip_def)

lemma lstrip_cases: "lstrip s = [] \<or> (\<exists>c w. lstrip s = c # w \<and> \<not> is_space c)"
  unfolding lstrip_def by (metis dropWhile_eq_Nil_conv hd_dropWhile list.exhaust list.sel(1))

lemma rstrip_Nil: "rstrip [] = []"
  by (simp add: rstrip_def)

lemma rstrip_Cons_nonspace: "\<not> is_space c \<Longrightarrow> rstrip (c # w) = c # rstrip w"
  using rstrip_snoc_nonspace [of c "[]" w] by simp

lemma strip_cases: "strip s = [] \<or> (\<exists>c w. strip s = c # w \<and> \<not> is_space c)"
  using lstrip_cases [of s] by (auto simp: strip_def rstrip_Nil rstrip_Cons_nonspace)

lemma strip_idem: "strip (strip s) = strip s"
proof -
  from lstrip_cases [of s] show ?thesis
  proof
    assume "lstrip s = []"
    then have "strip s = []" by (simp add: strip_def rstrip_Nil)
    moreover have "strip [] = []" by (simp add: strip_def rstrip_Nil lstrip_def)
    ultimately show ?thesis by simp
  next
    assume "\<exists>c w. lstrip s = c # w \<and> \<not> is_space c"
    then obtain c w where cw: "lstrip s = c # w" "\<not> is_space c" by blast
    then have "strip s = c # rstrip w" by (simp add: strip_def rstrip_Cons_nonspace)
    moreover have "strip (c # rstrip w) = c # rstrip w"
      using cw(2) by (simp add: strip_def lstrip_nonspace rstrip_Cons_nonspace rstrip_idem)
    ultimately show ?thesis by simp
  qed
qed

lemma set_strip_subset: "set (strip s) \<subseteq> set s"
proof -
  have "set (rstrip t) \<subseteq> set t" for t
    unfolding rstrip_def using set_dropWhileD by fastforce
  moreover have "set (lstrip s) \<subseteq> set s"
    unfolding lstrip_def using set_dropWhileD by fastforce
  ultimately show ?thesis unfolding strip_def by blast
qed

lemma nonspace_in_strip: "c \<in> set s \<Longrightarrow> \<not> is_space c \<Longrightarrow> c \<in> set (strip s)"
proof -
  assume c: "c \<in> set s" and ns: "\<not> is_space c"
  have "s = takeWhile is_space s @ lstrip s" by (simp add: lstrip_def)
  then have "set s = set (takeWhile is_space s) \<union> set (lstrip s)" by (metis set_append)
  with c ns have "c \<in> set (lstrip s)" by (auto dest: set_takeWhileD)
  moreover obtain r where "lstrip s = rstrip (lstrip s) @ r" "\<forall>c\<in>set r. is_space c"
    using rstrip_prefix by blast
  ultimately show ?thesis unfolding strip_def using ns by (metis Un_iff set_append)
qed

lemma eq_in_strip: "0x3D \<in> set (strip s) \<longleftrightarrow> 0x3D \<in> set s"
  using set_strip_subset [of s] nonspace_in_strip [of "0x3D" s] not_space_eq by blast

lemma line_key_trimmed: "line_key l = Some k \<Longrightarrow> strip k = k"
  by (auto simp: line_key_def Let_def strip_idem split: if_splits)

lemma strip_key_value_line:
  assumes "strip k = k"
  shows "strip (key_value_line k v) = k @ 0x3D # rstrip (v @ [0xA])"
proof -
  have l: "lstrip (k @ 0x3D # v @ [0xA]) = k @ 0x3D # v @ [0xA]"
  proof (cases k)
    case Nil then show ?thesis by (simp add: lstrip_nonspace not_space_eq)
  next
    case (Cons c w)
    with strip_cases [of k] assms have "\<not> is_space c" by auto
    with Cons show ?thesis by (simp add: lstrip_nonspace)
  qed
  show ?thesis
    by (simp add: strip_def key_value_line_def l rstrip_snoc_nonspace not_space_eq)
qed

lemma line_key_key_value_line: "wf_key k \<Longrightarrow> line_key (key_value_line k v) = Some k"
proof -
  assume wf: "wf_key k"
  then have s: "strip (key_value_line k v) = k @ 0x3D # rstrip (v @ [0xA])"
    by (simp add: wf_key_def strip_key_value_line)
  have "\<not> startswith (k @ 0x3D # rstrip (v @ [0xA])) (py ''#'')"
    using wf by (cases k) (auto simp: wf_key_def startswith_def py_def)
  moreover have "split_eq_first (k @ 0x3D # rstrip (v @ [0xA])) = k"
    using wf by (simp add: wf_key_def split_eq_first_def takeWhile_append)
  ultimately show ?thesis using wf by (simp add: line_key_def s wf_key_def)
qed

lemma wf_key_resource_pack: "wf_key (py ''resource-pack'')"
  by (simp add: wf_key_def py_def strip_def lstrip_def rstrip_def is_space_def startswith_def)

lemma wf_key_resource_pack_sha1: "wf_key (py ''resource-pack-sha1'')"
  by (simp add: wf_key_def py_def strip_def lstrip_def rstrip_def is_space_def startswith_def)

lemma wf_key_resource_pack_id: "wf_key (py ''resource-pack-id'')"
  by (simp add: wf_key_def py_def strip_def lstrip_def rstrip_def is_space_def startswith_def)

lemma wf_managed_resource_pack_keys: "wf_managed (resource_pack_keys u h p)"
  unfolding wf_managed_def resource_pack_keys_def
  using wf_key_resource_pack wf_key_resource_pack_sha1 wf_key_resource_pack_id
  by (simp add: py_def)

lemma wf_managed_key: "wf_managed M \<Longrightarrow> map_of M k = Some v \<Longrightarrow> wf_key k"
  by (auto simp: wf_managed_def list_all_iff dest!: map_of_SomeD)

lemma wf_managed_lookup: "wf_managed M \<Longrightarrow> (k, v) \<in> set M \<Longrightarrow> map_of M k = Some v"
  by (simp add: wf_managed_def)

lemma rewrite_line_unmanaged: "\<not> managed_line M l \<Longrightarrow> rewrite_line M l = l"
  by (auto simp: managed_line_def rewrite_line_def split: option.splits)

lemma rewrite_line_managed:
  "line_key l = Some k \<Longrightarrow> map_of M k = Some v \<Longrightarrow> rewrite_line M l = key_value_line k v"
  by (simp add: rewrite_line_def)

lemma line_key_rewrite_line: "wf_managed M \<Longrightarrow> line_key (rewrite_line M l) = line_key l"
  by (auto simp: rewrite_line_def line_key_key_value_line wf_managed_key split: option.splits)

lemma rewrite_line_key_value_line:
  "wf_managed M \<Longrightarrow> (k, v) \<in> set M \<Longrightarrow> rewrite_line M (key_value_line k v) = key_value_line k v"
  by (frule (1) wf_managed_lookup)
     (simp add: rewrite_line_def line_key_key_value_line wf_managed_key)

lemma rewrite_line_idem: "wf_managed M \<Longrightarrow> rewrite_line M (rewrite_line M l) = rewrite_line M l"
proof (cases "managed_line M l")
  case False
  then show ?thesis by (simp add: rewrite_line_unmanaged)
next
  case True
  assume wf: "wf_managed M"
  from True obtain k v where kv: "line_key l = Some k" "map_of M k = Some v"
    by (auto simp: managed_line_def split: option.splits)
  then have "(k, v) \<in> set M" by (simp add: map_of_SomeD)
  with wf kv show ?thesis
    by (simp add: rewrite_line_managed rewrite_line_key_value_line)
qed

lemma keys_seen_conv: "keys_seen lines = {k. \<exists>l\<in>set lines. line_key l = Some k}"
  by (induction lines) (auto simp: keys_seen_Nil keys_seen_Cons split: option.splits)

lemma keys_seen_append: "keys_seen (xs @ ys) = keys_seen xs \<union> keys_seen ys"
  by (auto simp: keys_seen_conv)

lemma keys_seen_rewritten: "wf_managed M \<Longrightarrow> keys_seen (map (rewrite_line M) D) = keys_seen D"
  by (auto simp: keys_seen_conv line_key_rewrite_line)

lemma keys_seen_appended:
  "wf_managed M \<Longrightarrow>
   keys_seen (map (\<lambda>(k, v). key_value_line k v) (filter (\<lambda>(k, v). k \<notin> S) M)) = fst ` set M - S"
proof -
  assume wf: "wf_managed M"
  have "line_key (key_value_line k v) = Some k" if "(k, v) \<in> set M" for k v
    using wf that wf_managed_lookup wf_managed_key line_key_key_value_line by blast
  then show ?thesis
    by (force simp: keys_seen_conv)
qed

lemma patch_lines_idem_wf:
  assumes wf: "wf_managed M"
  shows "patch_lines M (patch_lines M D) = patch_lines M D"
proof -
  let ?A = "map (\<lambda>(k, v). key_value_line k v) (filter (\<lambda>(k, v). k \<notin> keys_seen D) M)"
  have seen: "keys_seen (patch_lines M D) = keys_seen D \<union> (fst ` set M - keys_seen D)"
    by (simp add: patch_lines_eq keys_seen_append keys_seen_rewritten [OF wf] keys_seen_appended [OF wf])
  have none: "filter (\<lambda>(k, v). k \<notin> keys_seen (patch_lines M D)) M = []"
    unfolding seen by (auto simp: filter_empty_conv image_iff) 
  have app: "map (rewrite_line M) ?A = ?A"
    by (rule map_idI) (auto simp: rewrite_line_key_value_line [OF wf])
  have "patch_lines M (patch_lines M D) = map (rewrite_line M) (patch_lines M D)"
    by (subst patch_lines_eq) (simp add: none)
  also have "\<dots> = map (rewrite_line M) (map (rewrite_line M) D) @ map (rewrite_line M) ?A"
    by (simp add: patch_lines_eq)
  also have "\<dots> = map (rewrite_line M) D @ ?A"
  proof -
    have "map (rewrite_line M) (map (rewrite_line M) D) = map (rewrite_line M) D"
      by (simp add: rewrite_line_idem [OF wf])
    then show ?thesis by (simp only: app)
  qed
  also have "\<dots> = patch_lines M D"
    by (simp add: patch_lines_eq)
  finally show ?thesis .
qed

lemmas line_eval = py_def strip_def lstrip_def rstrip_def is_space_def startswith_def
  split_eq_first_def key_value_line_def resource_pack_keys_def Let_def

lemma occurrences_append: "occurrences k (xs @ ys) = occurrences k xs + occurrences k ys"
  by (simp add: occurrences_def)

lemma occurrences_zero: "occurrences k D = 0 \<longleftrightarrow> k \<notin> keys_seen D"
  by (auto simp: occurrences_def keys_seen_conv filter_empty_conv)

lemma occurrences_rewritten:
  "wf_managed M \<Longrightarrow> occurrences k (map (rewrite_line M) D) = occurrences k D"
  by (simp add: occurrences_def filter_map comp_def line_key_rewrite_line)

lemma filter_key_distinct:
  "distinct (map fst M) \<Longrightarrow> (k, v) \<in> set M \<Longrightarrow> filter (\<lambda>e. fst e = k) M = [(k, v)]"
proof (induction M)
  case Nil
  then show ?case by simp
next
  case (Cons e M)
  show ?case
  proof (cases "e = (k, v)")
    case True
    with Cons.prems have "\<forall>x\<in>set M. fst x \<noteq> k" by (auto simp: image_iff)
    then have "filter (\<lambda>e. fst e = k) M = []" by (simp add: filter_empty_conv)
    with True show ?thesis by simp
  next
    case False
    with Cons.prems have "(k, v) \<in> set M" "fst e \<noteq> k" "distinct (map fst M)"
      by (auto simp: image_iff)
    with Cons.IH show ?thesis by simp
  qed
qed

lemma occurrences_appended:
  assumes wf: "wf_managed M" and kv: "(k, v) \<in> set M"
  shows "occurrences k (map (\<lambda>(k, v). key_value_line k v) (filter (\<lambda>(k, v). k \<notin> S) M))
         = (if k \<in> S then 0 else 1)"
proof -
  have key: "line_key (key_value_line k' v') = Some k'" if "(k', v') \<in> set M" for k' v'
    using wf that wf_managed_lookup wf_managed_key line_key_key_value_line by blast
  have "filter (\<lambda>e. line_key (case e of (k, v) \<Rightarrow> key_value_line k v) = Some k) (filter (\<lambda>(k, v). k \<notin> S) M)
        = filter (\<lambda>(k, v). k \<notin> S) (filter (\<lambda>e. fst e = k) M)"
    unfolding filter_filter by (rule filter_cong) (auto simp: key)
  also have "\<dots> = filter (\<lambda>(k, v). k \<notin> S) [(k, v)]"
    using wf kv by (simp add: wf_managed_def filter_key_distinct)
  finally show ?thesis
    by (simp add: occurrences_def filter_map comp_def)
qed

lemma occurrences_patch_lines:
  assumes wf: "wf_managed M" and kv: "(k, v) \<in> set M"
  shows "occurrences k (patch_lines M D) = max 1 (occurrences k D)"
  using occurrences_zero [of k D]
  by (auto simp: patch_lines_eq occurrences_append occurrences_rewritten [OF wf]
      occurrences_appended [OF wf kv])

lemma patch_lines_nth_managed:
  assumes "i < length D" "line_key (D ! i) = Some k" "map_of M k = Some v"
  shows "patch_lines M D ! i = key_value_line k v"
  using assms by (simp add: patch_lines_eq nth_append rewrite_line_managed)

lemma patch_lines_key_lines:
  assumes wf: "wf_managed M" and kv: "(k, v) \<in> set M"
    and l: "l \<in> set (patch_lines M D)" "line_key l = Some k"
  shows "l = key_value_line k v"
proof -
  have look: "map_of M k = Some v" using wf kv by (rule wf_managed_lookup)
  from l(1) consider (body) d where "d \<in> set D" "l = rewrite_line M d"
    | (tail) k' v' where "(k', v') \<in> set M" "l = key_value_line k' v'"
    by (auto simp: patch_lines_eq)
  then show ?thesis
  proof cases
    case body
    with l(2) have "line_key d = Some k" by (simp add: line_key_rewrite_line [OF wf])
    with body look show ?thesis by (simp add: rewrite_line_managed)
  next
    case tail
    then have "line_key l = Some k'"
      using wf wf_managed_lookup wf_managed_key line_key_key_value_line by blast
    with l(2) have "k' = k" by simp
    with tail wf look have "v' = v" using wf_managed_lookup by fastforce
    with tail \<open>k' = k\<close> show ?thesis by simp
  qed
qed

lemma patch_lines_appended:
  assumes kv: "(k, v) \<in> set M" and absent: "k \<notin> keys_seen D"
  shows "\<exists>j. length D \<le> j \<and> j < length (patch_lines M D) \<and> patch_lines M D ! j = key_value_line k v"
proof -
  let ?A = "map (\<lambda>(k, v). key_value_line k v) (filter (\<lambda>(k, v). k \<notin> keys_seen D) M)"
  from kv absent have "key_value_line k v \<in> set ?A" by force
  then obtain n where n: "n < length ?A" "?A ! n = key_value_line k v"
    by (meson in_set_conv_nth)
  have "patch_lines M D ! (length D + n) = ?A ! n"
    by (simp add: patch_lines_eq nth_append)
  moreover have "length (patch_lines M D) = length D + length ?A"
    by (simp add: patch_lines_eq)
  ultimately show ?thesis using n by (intro exI [of _ "length D + n"]) simp
qed

section \<open>The properties of the line transformation\<close>

text \<open>
  C1 (preservation). A line that is blank, a comment, without \<open>=\<close>, or whose key is not in
  the managed mapping is found unchanged in the output, at the index it had in the input.
  This holds for every mapping, not only the one the code builds.
\<close>

theorem preservation:
  assumes "i < length D"
    and "strip (D ! i) = [] \<or> startswith (strip (D ! i)) (py ''#'') \<or> 0x3D \<notin> set (D ! i)
         \<or> map_of M (strip (split_eq_first (strip (D ! i)))) = None"
  shows "i < length (patch_lines M D) \<and> patch_lines M D ! i = D ! i"
proof -
  from assms(2) have "\<not> managed_line M (D ! i)"
    by (auto simp: managed_line_def line_key_def Let_def eq_in_strip split: option.splits if_splits)
  then have "rewrite_line M (D ! i) = D ! i" by (rule rewrite_line_unmanaged)
  with assms(1) show ?thesis by (simp add: patch_lines_eq nth_append)
qed

theorem preservation_witness:
  "patch_lines (resource_pack_keys (py ''u'') (py ''h'') (py ''p''))
     [py ''# comment'', [], py ''server-port=25565'', py ''resource-pack=old''] ! 2
   = py ''server-port=25565''"
proof -
  let ?D = "[py ''# comment'', [], py ''server-port=25565'', py ''resource-pack=old'']"
  let ?M = "resource_pack_keys (py ''u'') (py ''h'') (py ''p'')"
  have i: "2 < length ?D" by simp
  have k: "map_of ?M (strip (split_eq_first (strip (?D ! 2)))) = None"
    by (simp add: line_eval)
  from preservation [OF i, of ?M] k show ?thesis by simp
qed

text \<open>
  C2, as stated, fails: a managed key that the input carries twice is rewritten twice,
  so it appears twice in the output.
\<close>

theorem exactly_once_counterexample:
  "occurrences (py ''resource-pack'')
     (patch_lines (resource_pack_keys (py ''u'') (py ''h'') (py ''p''))
        [py ''resource-pack=a'' @ [0xA], py ''resource-pack=b'' @ [0xA]]) = 2"
proof -
  have "patch_lines (resource_pack_keys (py ''u'') (py ''h'') (py ''p''))
         [py ''resource-pack=a'' @ [0xA], py ''resource-pack=b'' @ [0xA]]
       = [py ''resource-pack=u'' @ [0xA], py ''resource-pack=u'' @ [0xA],
          py ''resource-pack-sha1=h'' @ [0xA], py ''resource-pack-id=p'' @ [0xA]]"
    by (simp add: patch_lines_def line_eval)
  then show ?thesis
    by (simp add: occurrences_def line_key_def line_eval)
qed

text \<open>
  C2 (amended). For each of the three managed keys: the output carries the key as often
  as the input does, and once when the input does not carry it; every output line with the
  key is the line \<open>key=value\<close> with the mapped value; such a line stands at each index where
  the input had the key, and behind all input lines when the input did not have it.
\<close>

theorem managed_key_lines:
  assumes "(k, v) \<in> set (resource_pack_keys u h p)"
  shows "occurrences k (patch_lines (resource_pack_keys u h p) D) = max 1 (occurrences k D)
    \<and> (\<forall>l\<in>set (patch_lines (resource_pack_keys u h p) D). line_key l = Some k \<longrightarrow> l = key_value_line k v)
    \<and> (\<forall>i<length D. line_key (D ! i) = Some k \<longrightarrow>
          patch_lines (resource_pack_keys u h p) D ! i = key_value_line k v)
    \<and> (occurrences k D = 0 \<longrightarrow>
          (\<exists>j. length D \<le> j \<and> j < length (patch_lines (resource_pack_keys u h p) D)
             \<and> patch_lines (resource_pack_keys u h p) D ! j = key_value_line k v))"
proof -
  let ?M = "resource_pack_keys u h p"
  have wf: "wf_managed ?M" by (rule wf_managed_resource_pack_keys)
  have look: "map_of ?M k = Some v" using wf assms by (rule wf_managed_lookup)
  have "occurrences k (patch_lines ?M D) = max 1 (occurrences k D)"
    using wf assms by (rule occurrences_patch_lines)
  moreover have "\<forall>l\<in>set (patch_lines ?M D). line_key l = Some k \<longrightarrow> l = key_value_line k v"
    using patch_lines_key_lines [OF wf assms] by blast
  moreover have "\<forall>i<length D. line_key (D ! i) = Some k \<longrightarrow> patch_lines ?M D ! i = key_value_line k v"
    using look by (simp add: patch_lines_nth_managed)
  moreover have "occurrences k D = 0 \<longrightarrow>
      (\<exists>j. length D \<le> j \<and> j < length (patch_lines ?M D) \<and> patch_lines ?M D ! j = key_value_line k v)"
    using patch_lines_appended [OF assms] by (simp add: occurrences_zero)
  ultimately show ?thesis by blast
qed

theorem managed_key_lines_witness:
  "occurrences (py ''resource-pack'')
     (patch_lines (resource_pack_keys (py ''u'') (py ''h'') (py ''p''))
        [py ''server-port=25565'', py ''resource-pack=old'']) = 1
   \<and> patch_lines (resource_pack_keys (py ''u'') (py ''h'') (py ''p''))
        [py ''server-port=25565'', py ''resource-pack=old''] ! 1 = py ''resource-pack=u'' @ [0xA]"
proof -
  let ?D = "[py ''server-port=25565'', py ''resource-pack=old'']"
  have m: "(py ''resource-pack'', py ''u'') \<in> set (resource_pack_keys (py ''u'') (py ''h'') (py ''p''))"
    by (simp add: resource_pack_keys_def)
  have o: "occurrences (py ''resource-pack'') ?D = 1"
    by (simp add: occurrences_def line_key_def line_eval)
  have k: "line_key (?D ! 1) = Some (py ''resource-pack'')"
    by (simp add: line_key_def line_eval)
  have kv: "key_value_line (py ''resource-pack'') (py ''u'') = py ''resource-pack=u'' @ [0xA]"
    by (simp add: key_value_line_def py_def)
  from managed_key_lines [OF m, of ?D] o k kv show ?thesis by simp
qed

text \<open>
  C3 (idempotence). Patching the patched lines again, with the same three values, changes
  nothing.
\<close>

theorem idempotence:
  "patch_lines (resource_pack_keys u h p) (patch_lines (resource_pack_keys u h p) D) =
   patch_lines (resource_pack_keys u h p) D"
  by (rule patch_lines_idem_wf [OF wf_managed_resource_pack_keys])

theorem idempotence_witness:
  "patch_lines (resource_pack_keys (py ''u'') (py ''h'') (py ''p''))
     (patch_lines (resource_pack_keys (py ''u'') (py ''h'') (py ''p''))
        [py ''# comment'', py ''  resource-pack = old'']) =
   [py ''# comment'', py ''resource-pack=u'' @ [0xA],
    py ''resource-pack-sha1=h'' @ [0xA], py ''resource-pack-id=p'' @ [0xA]]"
proof -
  have "patch_lines (resource_pack_keys (py ''u'') (py ''h'') (py ''p''))
         [py ''# comment'', py ''  resource-pack = old'']
       = [py ''# comment'', py ''resource-pack=u'' @ [0xA],
          py ''resource-pack-sha1=h'' @ [0xA], py ''resource-pack-id=p'' @ [0xA]]"
    by (simp add: patch_lines_def line_eval)
  with idempotence [of "py ''u''" "py ''h''" "py ''p''" "[py ''# comment'', py ''  resource-pack = old'']"]
  show ?thesis by simp
qed

text \<open>
  C4 (appending). The output is the rewritten input lines followed by one \<open>key=value\<close> line
  for each managed key that no input line carried, in the order resource-pack,
  resource-pack-sha1, resource-pack-id.
\<close>

theorem missing_keys_appended:
  "length D \<le> length (patch_lines (resource_pack_keys u h p) D)
   \<and> drop (length D) (patch_lines (resource_pack_keys u h p) D) =
       (if py ''resource-pack'' \<in> keys_seen D then [] else [py ''resource-pack='' @ u @ [0xA]])
     @ (if py ''resource-pack-sha1'' \<in> keys_seen D then [] else [py ''resource-pack-sha1='' @ h @ [0xA]])
     @ (if py ''resource-pack-id'' \<in> keys_seen D then [] else [py ''resource-pack-id='' @ p @ [0xA]])"
  by (simp add: patch_lines_eq resource_pack_keys_def key_value_line_def py_def)

theorem missing_keys_appended_witness:
  "drop 4 (patch_lines (resource_pack_keys (py ''new'' @ [0x5C] @ py '':url'') (py ''abcd1234'')
             (py ''11111111-1111-1111-1111-111111111111''))
        [py ''# comment'', [], py ''server-port=25565'', py ''resource-pack=old'']) =
     [py ''resource-pack-sha1=abcd1234'' @ [0xA],
      py ''resource-pack-id=11111111-1111-1111-1111-111111111111'' @ [0xA]]"
proof -
  let ?D = "[py ''# comment'', [], py ''server-port=25565'', py ''resource-pack=old'']"
  have seen: "keys_seen ?D = {py ''server-port'', py ''resource-pack''}"
    by (simp add: keys_seen_def List.map_filter_simps line_key_def line_eval insert_commute)
  have s: "py ''resource-pack'' \<in> keys_seen ?D" "py ''resource-pack-sha1'' \<notin> keys_seen ?D"
    "py ''resource-pack-id'' \<notin> keys_seen ?D"
    unfolding seen by (simp_all add: py_def)
  have l: "length ?D = 4" by simp
  have "drop (length ?D) (patch_lines (resource_pack_keys (py ''new'' @ [0x5C] @ py '':url'')
            (py ''abcd1234'') (py ''11111111-1111-1111-1111-111111111111'')) ?D) =
     [py ''resource-pack-sha1='' @ py ''abcd1234'' @ [0xA],
      py ''resource-pack-id='' @ py ''11111111-1111-1111-1111-111111111111'' @ [0xA]]"
    using missing_keys_appended [of ?D "py ''new'' @ [0x5C] @ py '':url''" "py ''abcd1234''"
      "py ''11111111-1111-1111-1111-111111111111''"] s by simp
  then show ?thesis unfolding l by (simp add: py_def)
qed

text \<open>
  C9 (shape of managed lines). Every line of the output is either an input line that is not
  a managed line, unchanged at its index, or exactly one of the three strings
  \<open>resource-pack=\<close>, \<open>resource-pack-sha1=\<close>, \<open>resource-pack-id=\<close> followed by the value and
  a newline: nothing of the whitespace of a rewritten line is kept, and the newline is
  there whether or not the input line had one.
\<close>

theorem managed_line_shape:
  assumes "i < length (patch_lines (resource_pack_keys u h p) D)"
  shows "(i < length D \<and> \<not> managed_line (resource_pack_keys u h p) (D ! i)
           \<and> patch_lines (resource_pack_keys u h p) D ! i = D ! i)
       \<or> patch_lines (resource_pack_keys u h p) D ! i \<in>
           {py ''resource-pack='' @ u @ [0xA], py ''resource-pack-sha1='' @ h @ [0xA],
            py ''resource-pack-id='' @ p @ [0xA]}"
proof -
  let ?M = "resource_pack_keys u h p"
  let ?S = "{py ''resource-pack='' @ u @ [0xA], py ''resource-pack-sha1='' @ h @ [0xA],
            py ''resource-pack-id='' @ p @ [0xA]}"
  have kv: "key_value_line k v \<in> ?S" if "(k, v) \<in> set ?M" for k v
    using that by (auto simp: resource_pack_keys_def key_value_line_def py_def)
  show ?thesis
  proof (cases "i < length D")
    case True
    then have nth: "patch_lines ?M D ! i = rewrite_line ?M (D ! i)"
      by (simp add: patch_lines_eq nth_append)
    show ?thesis
    proof (cases "managed_line ?M (D ! i)")
      case False
      with True nth show ?thesis by (simp add: rewrite_line_unmanaged)
    next
      case m: True
      then obtain k v where "line_key (D ! i) = Some k" "map_of ?M k = Some v"
        by (auto simp: managed_line_def split: option.splits)
      then have "rewrite_line ?M (D ! i) = key_value_line k v" "(k, v) \<in> set ?M"
        by (simp_all add: rewrite_line_managed map_of_SomeD)
      with nth kv show ?thesis by simp
    qed
  next
    case False
    let ?A = "map (\<lambda>(k, v). key_value_line k v) (filter (\<lambda>(k, v). k \<notin> keys_seen D) ?M)"
    from False assms have "patch_lines ?M D ! i = ?A ! (i - length D)" "i - length D < length ?A"
      by (simp_all add: patch_lines_eq nth_append)
    then have "patch_lines ?M D ! i \<in> set ?A" by (metis nth_mem)
    then obtain k v where "(k, v) \<in> set ?M" "patch_lines ?M D ! i = key_value_line k v"
      by auto
    with kv show ?thesis by simp
  qed
qed

theorem managed_line_shape_witness:
  "0 < length (patch_lines (resource_pack_keys (py ''u'') (py ''h'') (py ''p'')) [py ''  resource-pack = old''])
   \<and> managed_line (resource_pack_keys (py ''u'') (py ''h'') (py ''p'')) ([py ''  resource-pack = old''] ! 0)
   \<and> patch_lines (resource_pack_keys (py ''u'') (py ''h'') (py ''p'')) [py ''  resource-pack = old''] ! 0
       \<in> {py ''resource-pack='' @ py ''u'' @ [0xA], py ''resource-pack-sha1='' @ py ''h'' @ [0xA],
          py ''resource-pack-id='' @ py ''p'' @ [0xA]}"
proof -
  let ?M = "resource_pack_keys (py ''u'') (py ''h'') (py ''p'')"
  let ?D = "[py ''  resource-pack = old'']"
  have len: "0 < length (patch_lines ?M ?D)"
    by (simp add: patch_lines_def line_eval)
  have m: "managed_line ?M (?D ! 0)"
    by (simp add: managed_line_def line_key_def line_eval)
  from managed_line_shape [OF len] len m show ?thesis by blast
qed

section \<open>Escaping, UUIDs and their printed form\<close>

subsection \<open>Escaping the colons\<close>

lemma replace_colon_concat:
  "replace_colon s = concat (map (\<lambda>c. if c = 0x3A then [0x5C, 0x3A] else [c]) s)"
  by (induction s) auto

lemma replace_colon_twice:
  "replace_colon (replace_colon s) = concat (map (\<lambda>c. if c = 0x3A then [0x5C, 0x5C, 0x3A] else [c]) s)"
  by (induction s) auto

lemma length_replace_colon: "length (replace_colon s) = length s + count_list s 0x3A"
  by (induction s) auto

lemma count_replace_colon: "count_list (replace_colon s) 0x3A = count_list s 0x3A"
  by (induction s) auto

lemma replace_colon_grows: "0x3A \<in> set s \<Longrightarrow> length s < length (replace_colon s)"
proof -
  assume "0x3A \<in> set s"
  then have "count_list s 0x3A \<noteq> 0" by (simp add: count_list_0_iff)
  then show ?thesis by (simp add: length_replace_colon)
qed

subsection \<open>The printed form of a UUID\<close>

lemma length_hex32: "length (hex32 w) = 32"
  by (simp add: hex32_def)






lemma length_word_bytes: "length (word_bytes w) = 4"
  by (simp add: word_bytes_def)

lemma length_sha1: "length (sha1 m) = 20"
  by (simp add: sha1_def length_word_bytes split: prod.splits)

subsection \<open>Encodable strings\<close>

lemma utf8_encode_char_Some:
  "c < 0xD800 \<or> (0xDFFF < c \<and> c < 0x110000) \<Longrightarrow> \<exists>bs. utf8_encode_char c = Some bs"
  by (auto simp: utf8_encode_char_def)

lemma utf8_encode_encodable: "encodable s \<Longrightarrow> \<exists>b. utf8_encode s = Inr b"
proof (induction s)
  case Nil
  then show ?case by simp
next
  case (Cons c cs)
  then obtain bs rest where "utf8_encode_char c = Some bs" "utf8_encode cs = Inr rest"
    using utf8_encode_char_Some [of c] by (auto simp: encodable_def)
  then show ?case by simp
qed

lemma encodable_append: "encodable (a @ b) \<longleftrightarrow> encodable a \<and> encodable b"
  by (simp add: encodable_def)

lemma encodable_prefix: "encodable (py ''bitterharvest-pack-'')"
  by (simp add: encodable_def py_def)

subsection \<open>The printed form determines the UUID\<close>

lemma hex_digit_inj: "m < 16 \<Longrightarrow> n < 16 \<Longrightarrow> hex_digit m = hex_digit n \<Longrightarrow> m = n"
  by (auto simp: hex_digit_def split: if_splits)

lemma fifteen_mask: "(0xF :: uuid) = mask 4"
  by (simp add: mask_eq_exp_minus_1)

lemma nibble_less: "unat (x AND 0xF :: uuid) < 16"
proof -
  have "unat (x AND 0xF) \<le> unat (0xF :: uuid)"
    by (rule word_and_le1 [THEN word_le_nat_alt [THEN iffD1]])
  then show ?thesis by simp
qed

lemma bit_nibble: "m < 4 \<Longrightarrow> bit (drop_bit k x AND 0xF :: uuid) m \<longleftrightarrow> bit x (k + m)"
  by (auto simp: fifteen_mask bit_and_iff bit_drop_bit_eq bit_mask_iff dest: bit_imp_le_length)

lemma hex32_inj:
  assumes "hex32 a = hex32 b"
  shows "a = b"
proof (rule bit_word_eqI)
  fix n
  assume "n < LENGTH(128)"
  then have i: "31 - n div 4 \<in> set [0..<32]" and k: "4 * (31 - (31 - n div 4)) = 4 * (n div 4)"
    by auto
  from assms have "\<forall>i\<in>set [0..<32].
      hex_digit (unat (drop_bit (4 * (31 - i)) a AND 0xF)) = hex_digit (unat (drop_bit (4 * (31 - i)) b AND 0xF))"
    unfolding hex32_def by (simp only: map_eq_conv)
  with i have "hex_digit (unat (drop_bit (4 * (31 - (31 - n div 4))) a AND 0xF))
             = hex_digit (unat (drop_bit (4 * (31 - (31 - n div 4))) b AND 0xF))"
    by blast
  then have "unat (drop_bit (4 * (n div 4)) a AND 0xF) = unat (drop_bit (4 * (n div 4)) b AND 0xF)"
    unfolding k by (rule hex_digit_inj [OF nibble_less nibble_less])
  then have "drop_bit (4 * (n div 4)) a AND 0xF = drop_bit (4 * (n div 4)) b AND 0xF"
    by (simp add: word_unat_eq_iff)
  then have "bit (drop_bit (4 * (n div 4)) a AND 0xF) (n mod 4) = bit (drop_bit (4 * (n div 4)) b AND 0xF) (n mod 4)"
    by simp
  then show "bit a n = bit b n"
    by (simp add: bit_nibble)
qed

lemma unhyphen:
  "length a = 8 \<Longrightarrow> length b = 4 \<Longrightarrow> length c = 4 \<Longrightarrow> length d = 4 \<Longrightarrow>
   s = a @ [x] @ b @ [x] @ c @ [x] @ d @ [x] @ e \<Longrightarrow>
   take 8 s @ take 4 (drop 9 s) @ take 4 (drop 14 s) @ take 4 (drop 19 s) @ drop 24 s = a @ b @ c @ d @ e"
  by simp

lemma hex32_of_uuid_str:
  "take 8 (uuid_str w) @ take 4 (drop 9 (uuid_str w)) @ take 4 (drop 14 (uuid_str w))
     @ take 4 (drop 19 (uuid_str w)) @ drop 24 (uuid_str w) = hex32 w"
proof -
  let ?h = "hex32 w"
  have "take 8 (uuid_str w) @ take 4 (drop 9 (uuid_str w)) @ take 4 (drop 14 (uuid_str w))
     @ take 4 (drop 19 (uuid_str w)) @ drop 24 (uuid_str w)
     = take 8 ?h @ take 4 (drop 8 ?h) @ take 4 (drop 12 ?h) @ take 4 (drop 16 ?h) @ drop 20 ?h"
    by (rule unhyphen [where x = "0x2D"]) (simp_all add: length_hex32 uuid_str_def Let_def)
  also have "\<dots> = ?h"
  proof -
    have r: "take n (drop m ?h) @ drop (n + m) ?h = drop m ?h" for n m
      by (metis append_take_drop_id drop_drop)
    from r [of 4 16] r [of 4 12] r [of 4 8] show ?thesis by simp
  qed
  finally show ?thesis .
qed

lemma uuid_str_inj: "uuid_str a = uuid_str b \<Longrightarrow> a = b"
  using hex32_of_uuid_str [of a] hex32_of_uuid_str [of b] hex32_inj by metis




lemma generate_pack_uuid_eq_iff:
  "generate_pack_uuid h1 = generate_pack_uuid h2 \<longleftrightarrow>
   uuid5 NAMESPACE_DNS (py ''bitterharvest-pack-'' @ h1) = uuid5 NAMESPACE_DNS (py ''bitterharvest-pack-'' @ h2)"
  by (auto simp: generate_pack_uuid_def dest: uuid_str_inj split: sum.splits)

lemma generate_pack_uuid_encodable:
  assumes "encodable h"
  shows "\<exists>b. utf8_encode (py ''bitterharvest-pack-'' @ h) = Inr b
    \<and> generate_pack_uuid h = Inr (uuid_str (uuid_from_bytes (take 16 (sha1 (NAMESPACE_DNS @ b)))))"
proof -
  from assms have "encodable (py ''bitterharvest-pack-'' @ h)"
    by (simp add: encodable_append encodable_prefix)
  then obtain b where "utf8_encode (py ''bitterharvest-pack-'' @ h) = Inr b"
    using utf8_encode_encodable by blast
  then show ?thesis by (simp add: generate_pack_uuid_def uuid5_def)
qed

subsection \<open>The bits that \<open>uuid5\<close> sets and keeps\<close>
















lemma isascii_encodable: "isascii s \<Longrightarrow> encodable s"
  by (induction s) (simp_all add: isascii_def encodable_def)






subsection \<open>SHA-1 evaluated on the names of two hashes\<close>

text \<open>
  The rounds of SHA-1 are evaluated by rewriting, in pieces of ten rounds; the values in the
  statements below are those of the intermediate states.
\<close>

lemma word_rotl_32:
  assumes "n < 32"
  shows "word_rotl n (w :: 32 word) = push_bit n w OR drop_bit (32 - n) w"
proof (rule bit_word_eqI)
  fix k assume "k < LENGTH(32)"
  then have k: "k < 32" by simp
  show "bit (word_rotl n w) k \<longleftrightarrow> bit (push_bit n w OR drop_bit (32 - n) w) k"
  proof (cases "n \<le> k")
    case True
    with k have "(k + (32 - n)) mod 32 = k - n" "\<not> bit w (32 - n + k)"
      using assms by (auto simp add: mod_if dest: bit_imp_le_length)
    with True k assms show ?thesis
      by (simp add: bit_word_rotl_iff bit_or_iff bit_push_bit_iff bit_drop_bit_eq)
  next
    case False
    with k assms have "(k + (32 - n)) mod 32 = 32 - n + k"
      by simp
    with False k assms show ?thesis
      by (simp add: bit_word_rotl_iff bit_or_iff bit_push_bit_iff bit_drop_bit_eq)
  qed
qed

lemma replicate_unfold: "0 < n \<Longrightarrow> replicate n x = x # replicate (n - 1) x"
  by (cases n) simp_all

lemma length_unfold: "length (x # xs) = 1 + length xs"
  by simp

lemma upt_unfold: "i < j \<Longrightarrow> [i..<j] = i # [i + 1..<j]"
  by (simp add: upt_conv_Cons)

lemma sha1_schedule_unfold:
  "0 < n \<Longrightarrow> sha1_schedule n w =
     sha1_schedule (n - 1)
       (w @ [word_rotl 1 (w ! (length w - 3) XOR w ! (length w - 8) XOR w ! (length w - 14)
          XOR w ! (length w - 16))])"
  by (cases n) (simp_all add: Let_def)

lemma sha1_schedule_add: "sha1_schedule (m + n) w = sha1_schedule n (sha1_schedule m w)"
  by (induction m arbitrary: w) (simp_all add: Let_def)

lemma sha1_schedule_64:
  "sha1_schedule 64 w = sha1_schedule 16 (sha1_schedule 16 (sha1_schedule 16 (sha1_schedule 16 w)))"
  using sha1_schedule_add [of 16 48 w] sha1_schedule_add [of 16 32 "sha1_schedule 16 w"]
    sha1_schedule_add [of 16 16 "sha1_schedule 16 (sha1_schedule 16 w)"]
  by simp

lemma sha1_rounds_unfold:
  "sha1_rounds t (w # ws) (a, b, c, d, e) =
     sha1_rounds (t + 1) ws
       (word_rotl 5 a + sha1_f t b c d + e + sha1_k t + w, a, word_rotl 30 b, c, d)"
  by simp

lemma sha1_rounds_append:
  "sha1_rounds t (xs @ ys) s = sha1_rounds (t + length xs) ys (sha1_rounds t xs s)"
proof (induction xs arbitrary: t s)
  case Nil
  show ?case by simp
next
  case (Cons x xs)
  obtain a b c d e where s: "s = (a, b, c, d, e)"
    by (cases s)
  show ?case
    by (simp add: s Cons.IH)
qed

lemma name_abc123:
  "utf8_encode (py ''bitterharvest-pack-'' @ py ''abc123'') =
     Inr [0x62, 0x69, 0x74, 0x74, 0x65, 0x72, 0x68, 0x61, 0x72, 0x76, 0x65, 0x73, 0x74, 0x2d, 0x70,
     0x61, 0x63, 0x6b, 0x2d, 0x61, 0x62, 0x63, 0x31, 0x32, 0x33]"
  by (simp add: py_def utf8_encode_char_def)

lemma pad_abc123:
  "sha1_pad (NAMESPACE_DNS @
     [0x62, 0x69, 0x74, 0x74, 0x65, 0x72, 0x68, 0x61, 0x72, 0x76, 0x65, 0x73, 0x74, 0x2d, 0x70,
     0x61, 0x63, 0x6b, 0x2d, 0x61, 0x62, 0x63, 0x31, 0x32, 0x33]) =
     [0x6b, 0xa7, 0xb8, 0x10, 0x9d, 0xad, 0x11, 0xd1, 0x80, 0xb4, 0x00, 0xc0, 0x4f, 0xd4, 0x30,
     0xc8, 0x62, 0x69, 0x74, 0x74, 0x65, 0x72, 0x68, 0x61, 0x72, 0x76, 0x65, 0x73, 0x74, 0x2d,
     0x70, 0x61, 0x63, 0x6b, 0x2d, 0x61, 0x62, 0x63, 0x31, 0x32, 0x33, 0x80, 0x00, 0x00, 0x00,
     0x00, 0x00, 0x00, 0x00, 0x00, 0x00, 0x00, 0x00, 0x00, 0x00, 0x00, 0x00, 0x00, 0x00, 0x00,
     0x00, 0x00, 0x01, 0x48]"
  by (simp add: sha1_pad_def NAMESPACE_DNS_def replicate_unfold)

lemma words_abc123:
  "be_words
     [0x6b, 0xa7, 0xb8, 0x10, 0x9d, 0xad, 0x11, 0xd1, 0x80, 0xb4, 0x00, 0xc0, 0x4f, 0xd4, 0x30,
     0xc8, 0x62, 0x69, 0x74, 0x74, 0x65, 0x72, 0x68, 0x61, 0x72, 0x76, 0x65, 0x73, 0x74, 0x2d,
     0x70, 0x61, 0x63, 0x6b, 0x2d, 0x61, 0x62, 0x63, 0x31, 0x32, 0x33, 0x80, 0x00, 0x00, 0x00,
     0x00, 0x00, 0x00, 0x00, 0x00, 0x00, 0x00, 0x00, 0x00, 0x00, 0x00, 0x00, 0x00, 0x00, 0x00,
     0x00, 0x00, 0x01, 0x48] =
     [0x6ba7b810, 0x9dad11d1, 0x80b400c0, 0x4fd430c8, 0x62697474, 0x65726861, 0x72766573,
     0x742d7061, 0x636b2d61, 0x62633132, 0x33800000, 0x00000000, 0x00000000, 0x00000000,
     0x00000000, 0x00000148]"
  by simp

lemma schedule_abc123_0:
  "sha1_schedule 16
     [0x6ba7b810, 0x9dad11d1, 0x80b400c0, 0x4fd430c8, 0x62697474, 0x65726861, 0x72766573,
     0x742d7061, 0x636b2d61, 0x62633132, 0x33800000, 0x00000000, 0x00000000, 0x00000000,
     0x00000000, 0x00000148] =
     [0x6ba7b810, 0x9dad11d1, 0x80b400c0, 0x4fd430c8, 0x62697474, 0x65726861, 0x72766573,
     0x742d7061, 0x636b2d61, 0x62633132, 0x33800000, 0x00000000, 0x00000000, 0x00000000,
     0x00000000, 0x00000148, 0x10f12b63, 0x60342057, 0xa2baebf9, 0x74aee794, 0xe05662a0,
     0x67cbe7f3, 0xcb675f0c, 0xec304577, 0x4fa3c3e2, 0x92609cd3, 0xfa155d1c, 0x761a48ec,
     0xe46dfce6, 0x3bbd774f, 0x5b187907, 0xd0d3311c]"
  by (simp add: sha1_schedule_unfold word_rotl_32 length_unfold
      del: sha1_schedule.simps(2) list.size(4) length_Cons)

lemma schedule_abc123_1:
  "sha1_schedule 16
     [0x6ba7b810, 0x9dad11d1, 0x80b400c0, 0x4fd430c8, 0x62697474, 0x65726861, 0x72766573,
     0x742d7061, 0x636b2d61, 0x62633132, 0x33800000, 0x00000000, 0x00000000, 0x00000000,
     0x00000000, 0x00000148, 0x10f12b63, 0x60342057, 0xa2baebf9, 0x74aee794, 0xe05662a0,
     0x67cbe7f3, 0xcb675f0c, 0xec304577, 0x4fa3c3e2, 0x92609cd3, 0xfa155d1c, 0x761a48ec,
     0xe46dfce6, 0x3bbd774f, 0x5b187907, 0xd0d3311c] =
     [0x6ba7b810, 0x9dad11d1, 0x80b400c0, 0x4fd430c8, 0x62697474, 0x65726861, 0x72766573,
     0x742d7061, 0x636b2d61, 0x62633132, 0x33800000, 0x00000000, 0x00000000, 0x00000000,
     0x00000000, 0x00000148, 0x10f12b63, 0x60342057, 0xa2baebf9, 0x74aee794, 0xe05662a0,
     0x67cbe7f3, 0xcb675f0c, 0xec304577, 0x4fa3c3e2, 0x92609cd3, 0xfa155d1c, 0x761a48ec,
     0xe46dfce6, 0x3bbd774f, 0x5b187907, 0xd0d3311c, 0x8caae86f, 0xbbc4442f, 0xd055cab2,
     0xd3ab41c9, 0xe9310aca, 0xc0263ef2, 0x18ef4840, 0x8f65c4e4, 0xf27490c7, 0x8ea3b0a0,
     0x82915f58, 0xd8f1dd5a, 0xb1ce7f17, 0x53b24ff3, 0x2f5808e4, 0xab799d80]"
  by (simp add: sha1_schedule_unfold word_rotl_32 length_unfold
      del: sha1_schedule.simps(2) list.size(4) length_Cons)

lemma schedule_abc123_2:
  "sha1_schedule 16
     [0x6ba7b810, 0x9dad11d1, 0x80b400c0, 0x4fd430c8, 0x62697474, 0x65726861, 0x72766573,
     0x742d7061, 0x636b2d61, 0x62633132, 0x33800000, 0x00000000, 0x00000000, 0x00000000,
     0x00000000, 0x00000148, 0x10f12b63, 0x60342057, 0xa2baebf9, 0x74aee794, 0xe05662a0,
     0x67cbe7f3, 0xcb675f0c, 0xec304577, 0x4fa3c3e2, 0x92609cd3, 0xfa155d1c, 0x761a48ec,
     0xe46dfce6, 0x3bbd774f, 0x5b187907, 0xd0d3311c, 0x8caae86f, 0xbbc4442f, 0xd055cab2,
     0xd3ab41c9, 0xe9310aca, 0xc0263ef2, 0x18ef4840, 0x8f65c4e4, 0xf27490c7, 0x8ea3b0a0,
     0x82915f58, 0xd8f1dd5a, 0xb1ce7f17, 0x53b24ff3, 0x2f5808e4, 0xab799d80] =
     [0x6ba7b810, 0x9dad11d1, 0x80b400c0, 0x4fd430c8, 0x62697474, 0x65726861, 0x72766573,
     0x742d7061, 0x636b2d61, 0x62633132, 0x33800000, 0x00000000, 0x00000000, 0x00000000,
     0x00000000, 0x00000148, 0x10f12b63, 0x60342057, 0xa2baebf9, 0x74aee794, 0xe05662a0,
     0x67cbe7f3, 0xcb675f0c, 0xec304577, 0x4fa3c3e2, 0x92609cd3, 0xfa155d1c, 0x761a48ec,
     0xe46dfce6, 0x3bbd774f, 0x5b187907, 0xd0d3311c, 0x8caae86f, 0xbbc4442f, 0xd055cab2,
     0xd3ab41c9, 0xe9310aca, 0xc0263ef2, 0x18ef4840, 0x8f65c4e4, 0xf27490c7, 0x8ea3b0a0,
     0x82915f58, 0xd8f1dd5a, 0xb1ce7f17, 0x53b24ff3, 0x2f5808e4, 0xab799d80, 0xfa73fbd3,
     0x93297b45, 0x21180540, 0x621eb364, 0xa6728db1, 0x7bd3614a, 0x4fbac60f, 0x199ac8ea,
     0xe28aaa0d, 0x1583a161, 0x17bbdbca, 0x17af1780, 0x5aceb646, 0x2946d1e7, 0x1a7c4571,
     0xf60930d2]"
  by (simp add: sha1_schedule_unfold word_rotl_32 length_unfold
      del: sha1_schedule.simps(2) list.size(4) length_Cons)

lemma schedule_abc123_3:
  "sha1_schedule 16
     [0x6ba7b810, 0x9dad11d1, 0x80b400c0, 0x4fd430c8, 0x62697474, 0x65726861, 0x72766573,
     0x742d7061, 0x636b2d61, 0x62633132, 0x33800000, 0x00000000, 0x00000000, 0x00000000,
     0x00000000, 0x00000148, 0x10f12b63, 0x60342057, 0xa2baebf9, 0x74aee794, 0xe05662a0,
     0x67cbe7f3, 0xcb675f0c, 0xec304577, 0x4fa3c3e2, 0x92609cd3, 0xfa155d1c, 0x761a48ec,
     0xe46dfce6, 0x3bbd774f, 0x5b187907, 0xd0d3311c, 0x8caae86f, 0xbbc4442f, 0xd055cab2,
     0xd3ab41c9, 0xe9310aca, 0xc0263ef2, 0x18ef4840, 0x8f65c4e4, 0xf27490c7, 0x8ea3b0a0,
     0x82915f58, 0xd8f1dd5a, 0xb1ce7f17, 0x53b24ff3, 0x2f5808e4, 0xab799d80, 0xfa73fbd3,
     0x93297b45, 0x21180540, 0x621eb364, 0xa6728db1, 0x7bd3614a, 0x4fbac60f, 0x199ac8ea,
     0xe28aaa0d, 0x1583a161, 0x17bbdbca, 0x17af1780, 0x5aceb646, 0x2946d1e7, 0x1a7c4571,
     0xf60930d2] =
     [0x6ba7b810, 0x9dad11d1, 0x80b400c0, 0x4fd430c8, 0x62697474, 0x65726861, 0x72766573,
     0x742d7061, 0x636b2d61, 0x62633132, 0x33800000, 0x00000000, 0x00000000, 0x00000000,
     0x00000000, 0x00000148, 0x10f12b63, 0x60342057, 0xa2baebf9, 0x74aee794, 0xe05662a0,
     0x67cbe7f3, 0xcb675f0c, 0xec304577, 0x4fa3c3e2, 0x92609cd3, 0xfa155d1c, 0x761a48ec,
     0xe46dfce6, 0x3bbd774f, 0x5b187907, 0xd0d3311c, 0x8caae86f, 0xbbc4442f, 0xd055cab2,
     0xd3ab41c9, 0xe9310aca, 0xc0263ef2, 0x18ef4840, 0x8f65c4e4, 0xf27490c7, 0x8ea3b0a0,
     0x82915f58, 0xd8f1dd5a, 0xb1ce7f17, 0x53b24ff3, 0x2f5808e4, 0xab799d80, 0xfa73fbd3,
     0x93297b45, 0x21180540, 0x621eb364, 0xa6728db1, 0x7bd3614a, 0x4fbac60f, 0x199ac8ea,
     0xe28aaa0d, 0x1583a161, 0x17bbdbca, 0x17af1780, 0x5aceb646, 0x2946d1e7, 0x1a7c4571,
     0xf60930d2, 0x214f0af2, 0xfd905863, 0xcdb0c7d2, 0x5e5b9eb8, 0x9d2d4b36, 0x0d7f7f2b,
     0xd22f6f97, 0xce7a24de, 0xb202083d, 0x5b27022a, 0x9d7f1d00, 0xa560a1c5, 0x0d717457,
     0x9e9f063c, 0x98f903a2, 0x91247071]"
  by (simp add: sha1_schedule_unfold word_rotl_32 length_unfold
      del: sha1_schedule.simps(2) list.size(4) length_Cons)

lemma schedule_abc123:
  "sha1_schedule 64
     [0x6ba7b810, 0x9dad11d1, 0x80b400c0, 0x4fd430c8, 0x62697474, 0x65726861, 0x72766573,
     0x742d7061, 0x636b2d61, 0x62633132, 0x33800000, 0x00000000, 0x00000000, 0x00000000,
     0x00000000, 0x00000148] =
     [0x6ba7b810, 0x9dad11d1, 0x80b400c0, 0x4fd430c8, 0x62697474, 0x65726861, 0x72766573,
     0x742d7061, 0x636b2d61, 0x62633132, 0x33800000, 0x00000000, 0x00000000, 0x00000000,
     0x00000000, 0x00000148, 0x10f12b63, 0x60342057, 0xa2baebf9, 0x74aee794, 0xe05662a0,
     0x67cbe7f3, 0xcb675f0c, 0xec304577, 0x4fa3c3e2, 0x92609cd3, 0xfa155d1c, 0x761a48ec,
     0xe46dfce6, 0x3bbd774f, 0x5b187907, 0xd0d3311c, 0x8caae86f, 0xbbc4442f, 0xd055cab2,
     0xd3ab41c9, 0xe9310aca, 0xc0263ef2, 0x18ef4840, 0x8f65c4e4, 0xf27490c7, 0x8ea3b0a0,
     0x82915f58, 0xd8f1dd5a, 0xb1ce7f17, 0x53b24ff3, 0x2f5808e4, 0xab799d80, 0xfa73fbd3,
     0x93297b45, 0x21180540, 0x621eb364, 0xa6728db1, 0x7bd3614a, 0x4fbac60f, 0x199ac8ea,
     0xe28aaa0d, 0x1583a161, 0x17bbdbca, 0x17af1780, 0x5aceb646, 0x2946d1e7, 0x1a7c4571,
     0xf60930d2, 0x214f0af2, 0xfd905863, 0xcdb0c7d2, 0x5e5b9eb8, 0x9d2d4b36, 0x0d7f7f2b,
     0xd22f6f97, 0xce7a24de, 0xb202083d, 0x5b27022a, 0x9d7f1d00, 0xa560a1c5, 0x0d717457,
     0x9e9f063c, 0x98f903a2, 0x91247071]"
  by (simp only: sha1_schedule_64 schedule_abc123_0 schedule_abc123_1 schedule_abc123_2 schedule_abc123_3)

lemma rounds_abc123_0:
  "sha1_rounds 0
     [0x6ba7b810, 0x9dad11d1, 0x80b400c0, 0x4fd430c8, 0x62697474, 0x65726861, 0x72766573,
     0x742d7061, 0x636b2d61, 0x62633132]
     (0x67452301, 0xefcdab89, 0x98badcfe, 0x10325476, 0xc3d2e1f0) =
     (0xd9b45246, 0xfa7232a0, 0x4887c415, 0x29c72c3c, 0xcb7fe04a)"
  by (simp add: sha1_rounds_unfold sha1_f_def sha1_k_def word_rotl_32 del: sha1_rounds.simps(2))

lemma rounds_abc123_1:
  "sha1_rounds 10
     [0x33800000, 0x00000000, 0x00000000, 0x00000000, 0x00000000, 0x00000148, 0x10f12b63,
     0x60342057, 0xa2baebf9, 0x74aee794]
     (0xd9b45246, 0xfa7232a0, 0x4887c415, 0x29c72c3c, 0xcb7fe04a) =
     (0x325b4bda, 0x993b796d, 0xe2842e9e, 0x750f57d6, 0xcf46893c)"
  by (simp add: sha1_rounds_unfold sha1_f_def sha1_k_def word_rotl_32 del: sha1_rounds.simps(2))

lemma rounds_abc123_2:
  "sha1_rounds 20
     [0xe05662a0, 0x67cbe7f3, 0xcb675f0c, 0xec304577, 0x4fa3c3e2, 0x92609cd3, 0xfa155d1c,
     0x761a48ec, 0xe46dfce6, 0x3bbd774f]
     (0x325b4bda, 0x993b796d, 0xe2842e9e, 0x750f57d6, 0xcf46893c) =
     (0x8aa122f9, 0x91202f56, 0x4875f462, 0x66f0ec9b, 0xefaac960)"
  by (simp add: sha1_rounds_unfold sha1_f_def sha1_k_def word_rotl_32 del: sha1_rounds.simps(2))

lemma rounds_abc123_3:
  "sha1_rounds 30
     [0x5b187907, 0xd0d3311c, 0x8caae86f, 0xbbc4442f, 0xd055cab2, 0xd3ab41c9, 0xe9310aca,
     0xc0263ef2, 0x18ef4840, 0x8f65c4e4]
     (0x8aa122f9, 0x91202f56, 0x4875f462, 0x66f0ec9b, 0xefaac960) =
     (0xc4428e54, 0x89cb3455, 0xc54ab85a, 0x80696ed5, 0xdc4e1d8a)"
  by (simp add: sha1_rounds_unfold sha1_f_def sha1_k_def word_rotl_32 del: sha1_rounds.simps(2))

lemma rounds_abc123_4:
  "sha1_rounds 40
     [0xf27490c7, 0x8ea3b0a0, 0x82915f58, 0xd8f1dd5a, 0xb1ce7f17, 0x53b24ff3, 0x2f5808e4,
     0xab799d80, 0xfa73fbd3, 0x93297b45]
     (0xc4428e54, 0x89cb3455, 0xc54ab85a, 0x80696ed5, 0xdc4e1d8a) =
     (0xda06d0fd, 0x44bced48, 0xdaca4503, 0x2e5d2162, 0x53a23ecb)"
  by (simp add: sha1_rounds_unfold sha1_f_def sha1_k_def word_rotl_32 del: sha1_rounds.simps(2))

lemma rounds_abc123_5:
  "sha1_rounds 50
     [0x21180540, 0x621eb364, 0xa6728db1, 0x7bd3614a, 0x4fbac60f, 0x199ac8ea, 0xe28aaa0d,
     0x1583a161, 0x17bbdbca, 0x17af1780]
     (0xda06d0fd, 0x44bced48, 0xdaca4503, 0x2e5d2162, 0x53a23ecb) =
     (0x3ad94c62, 0x4ab616bc, 0x051115d8, 0xb9f45ff0, 0xf4f19eda)"
  by (simp add: sha1_rounds_unfold sha1_f_def sha1_k_def word_rotl_32 del: sha1_rounds.simps(2))

lemma rounds_abc123_6:
  "sha1_rounds 60
     [0x5aceb646, 0x2946d1e7, 0x1a7c4571, 0xf60930d2, 0x214f0af2, 0xfd905863, 0xcdb0c7d2,
     0x5e5b9eb8, 0x9d2d4b36, 0x0d7f7f2b]
     (0x3ad94c62, 0x4ab616bc, 0x051115d8, 0xb9f45ff0, 0xf4f19eda) =
     (0x14652312, 0x877714a2, 0x83f77a36, 0x468ce437, 0xf2a14551)"
  by (simp add: sha1_rounds_unfold sha1_f_def sha1_k_def word_rotl_32 del: sha1_rounds.simps(2))

lemma rounds_abc123_7:
  "sha1_rounds 70
     [0xd22f6f97, 0xce7a24de, 0xb202083d, 0x5b27022a, 0x9d7f1d00, 0xa560a1c5, 0x0d717457,
     0x9e9f063c, 0x98f903a2, 0x91247071]
     (0x14652312, 0x877714a2, 0x83f77a36, 0x468ce437, 0xf2a14551) =
     (0xd2e9cc36, 0xb376c057, 0xf770b7d2, 0x39dfb453, 0x4bd29976)"
  by (simp add: sha1_rounds_unfold sha1_f_def sha1_k_def word_rotl_32 del: sha1_rounds.simps(2))

lemma rounds_abc123:
  "sha1_rounds 0
     [0x6ba7b810, 0x9dad11d1, 0x80b400c0, 0x4fd430c8, 0x62697474, 0x65726861, 0x72766573,
     0x742d7061, 0x636b2d61, 0x62633132, 0x33800000, 0x00000000, 0x00000000, 0x00000000,
     0x00000000, 0x00000148, 0x10f12b63, 0x60342057, 0xa2baebf9, 0x74aee794, 0xe05662a0,
     0x67cbe7f3, 0xcb675f0c, 0xec304577, 0x4fa3c3e2, 0x92609cd3, 0xfa155d1c, 0x761a48ec,
     0xe46dfce6, 0x3bbd774f, 0x5b187907, 0xd0d3311c, 0x8caae86f, 0xbbc4442f, 0xd055cab2,
     0xd3ab41c9, 0xe9310aca, 0xc0263ef2, 0x18ef4840, 0x8f65c4e4, 0xf27490c7, 0x8ea3b0a0,
     0x82915f58, 0xd8f1dd5a, 0xb1ce7f17, 0x53b24ff3, 0x2f5808e4, 0xab799d80, 0xfa73fbd3,
     0x93297b45, 0x21180540, 0x621eb364, 0xa6728db1, 0x7bd3614a, 0x4fbac60f, 0x199ac8ea,
     0xe28aaa0d, 0x1583a161, 0x17bbdbca, 0x17af1780, 0x5aceb646, 0x2946d1e7, 0x1a7c4571,
     0xf60930d2, 0x214f0af2, 0xfd905863, 0xcdb0c7d2, 0x5e5b9eb8, 0x9d2d4b36, 0x0d7f7f2b,
     0xd22f6f97, 0xce7a24de, 0xb202083d, 0x5b27022a, 0x9d7f1d00, 0xa560a1c5, 0x0d717457,
     0x9e9f063c, 0x98f903a2, 0x91247071]
     (0x67452301, 0xefcdab89, 0x98badcfe, 0x10325476, 0xc3d2e1f0) =
     (0xd2e9cc36, 0xb376c057, 0xf770b7d2, 0x39dfb453, 0x4bd29976)"
proof -
  have e: "[0x6ba7b810, 0x9dad11d1, 0x80b400c0, 0x4fd430c8, 0x62697474, 0x65726861, 0x72766573,
     0x742d7061, 0x636b2d61, 0x62633132, 0x33800000, 0x00000000, 0x00000000, 0x00000000,
     0x00000000, 0x00000148, 0x10f12b63, 0x60342057, 0xa2baebf9, 0x74aee794, 0xe05662a0,
     0x67cbe7f3, 0xcb675f0c, 0xec304577, 0x4fa3c3e2, 0x92609cd3, 0xfa155d1c, 0x761a48ec,
     0xe46dfce6, 0x3bbd774f, 0x5b187907, 0xd0d3311c, 0x8caae86f, 0xbbc4442f, 0xd055cab2,
     0xd3ab41c9, 0xe9310aca, 0xc0263ef2, 0x18ef4840, 0x8f65c4e4, 0xf27490c7, 0x8ea3b0a0,
     0x82915f58, 0xd8f1dd5a, 0xb1ce7f17, 0x53b24ff3, 0x2f5808e4, 0xab799d80, 0xfa73fbd3,
     0x93297b45, 0x21180540, 0x621eb364, 0xa6728db1, 0x7bd3614a, 0x4fbac60f, 0x199ac8ea,
     0xe28aaa0d, 0x1583a161, 0x17bbdbca, 0x17af1780, 0x5aceb646, 0x2946d1e7, 0x1a7c4571,
     0xf60930d2, 0x214f0af2, 0xfd905863, 0xcdb0c7d2, 0x5e5b9eb8, 0x9d2d4b36, 0x0d7f7f2b,
     0xd22f6f97, 0xce7a24de, 0xb202083d, 0x5b27022a, 0x9d7f1d00, 0xa560a1c5, 0x0d717457,
     0x9e9f063c, 0x98f903a2, 0x91247071] =
     [0x6ba7b810, 0x9dad11d1, 0x80b400c0, 0x4fd430c8, 0x62697474, 0x65726861, 0x72766573,
     0x742d7061, 0x636b2d61, 0x62633132] @
     [0x33800000, 0x00000000, 0x00000000, 0x00000000, 0x00000000, 0x00000148, 0x10f12b63,
     0x60342057, 0xa2baebf9, 0x74aee794] @
     [0xe05662a0, 0x67cbe7f3, 0xcb675f0c, 0xec304577, 0x4fa3c3e2, 0x92609cd3, 0xfa155d1c,
     0x761a48ec, 0xe46dfce6, 0x3bbd774f] @
     [0x5b187907, 0xd0d3311c, 0x8caae86f, 0xbbc4442f, 0xd055cab2, 0xd3ab41c9, 0xe9310aca,
     0xc0263ef2, 0x18ef4840, 0x8f65c4e4] @
     [0xf27490c7, 0x8ea3b0a0, 0x82915f58, 0xd8f1dd5a, 0xb1ce7f17, 0x53b24ff3, 0x2f5808e4,
     0xab799d80, 0xfa73fbd3, 0x93297b45] @
     [0x21180540, 0x621eb364, 0xa6728db1, 0x7bd3614a, 0x4fbac60f, 0x199ac8ea, 0xe28aaa0d,
     0x1583a161, 0x17bbdbca, 0x17af1780] @
     [0x5aceb646, 0x2946d1e7, 0x1a7c4571, 0xf60930d2, 0x214f0af2, 0xfd905863, 0xcdb0c7d2,
     0x5e5b9eb8, 0x9d2d4b36, 0x0d7f7f2b] @
     [0xd22f6f97, 0xce7a24de, 0xb202083d, 0x5b27022a, 0x9d7f1d00, 0xa560a1c5, 0x0d717457,
     0x9e9f063c, 0x98f903a2, 0x91247071]"
    by simp
  have l: "length ([0x6ba7b810, 0x9dad11d1, 0x80b400c0, 0x4fd430c8, 0x62697474, 0x65726861, 0x72766573, 0x742d7061, 0x636b2d61, 0x62633132] :: u32 list) = 10" "length ([0x33800000, 0x00000000, 0x00000000, 0x00000000, 0x00000000, 0x00000148, 0x10f12b63, 0x60342057, 0xa2baebf9, 0x74aee794] :: u32 list) = 10" "length ([0xe05662a0, 0x67cbe7f3, 0xcb675f0c, 0xec304577, 0x4fa3c3e2, 0x92609cd3, 0xfa155d1c, 0x761a48ec, 0xe46dfce6, 0x3bbd774f] :: u32 list) = 10" "length ([0x5b187907, 0xd0d3311c, 0x8caae86f, 0xbbc4442f, 0xd055cab2, 0xd3ab41c9, 0xe9310aca, 0xc0263ef2, 0x18ef4840, 0x8f65c4e4] :: u32 list) = 10" "length ([0xf27490c7, 0x8ea3b0a0, 0x82915f58, 0xd8f1dd5a, 0xb1ce7f17, 0x53b24ff3, 0x2f5808e4, 0xab799d80, 0xfa73fbd3, 0x93297b45] :: u32 list) = 10" "length ([0x21180540, 0x621eb364, 0xa6728db1, 0x7bd3614a, 0x4fbac60f, 0x199ac8ea, 0xe28aaa0d, 0x1583a161, 0x17bbdbca, 0x17af1780] :: u32 list) = 10" "length ([0x5aceb646, 0x2946d1e7, 0x1a7c4571, 0xf60930d2, 0x214f0af2, 0xfd905863, 0xcdb0c7d2, 0x5e5b9eb8, 0x9d2d4b36, 0x0d7f7f2b] :: u32 list) = 10"
    by simp_all
  have a: "(0::nat) + 10 = 10" "(10::nat) + 10 = 20" "(20::nat) + 10 = 30" "(30::nat) + 10 = 40" "(40::nat) + 10 = 50" "(50::nat) + 10 = 60" "(60::nat) + 10 = 70"
    by simp_all
  show ?thesis
    by (simp only: e sha1_rounds_append l a rounds_abc123_0 rounds_abc123_1 rounds_abc123_2 rounds_abc123_3 rounds_abc123_4 rounds_abc123_5 rounds_abc123_6 rounds_abc123_7)
qed

lemma block_abc123:
  "sha1_block (0x67452301, 0xefcdab89, 0x98badcfe, 0x10325476, 0xc3d2e1f0)
     [0x6b, 0xa7, 0xb8, 0x10, 0x9d, 0xad, 0x11, 0xd1, 0x80, 0xb4, 0x00, 0xc0, 0x4f, 0xd4, 0x30,
     0xc8, 0x62, 0x69, 0x74, 0x74, 0x65, 0x72, 0x68, 0x61, 0x72, 0x76, 0x65, 0x73, 0x74, 0x2d,
     0x70, 0x61, 0x63, 0x6b, 0x2d, 0x61, 0x62, 0x63, 0x31, 0x32, 0x33, 0x80, 0x00, 0x00, 0x00,
     0x00, 0x00, 0x00, 0x00, 0x00, 0x00, 0x00, 0x00, 0x00, 0x00, 0x00, 0x00, 0x00, 0x00, 0x00,
     0x00, 0x00, 0x01, 0x48] =
     (0x3a2eef37, 0xa3446be0, 0x902b94d0, 0x4a1208c9, 0x0fa57b66)"
proof -
  have "sha1_block (0x67452301, 0xefcdab89, 0x98badcfe, 0x10325476, 0xc3d2e1f0)
     [0x6b, 0xa7, 0xb8, 0x10, 0x9d, 0xad, 0x11, 0xd1, 0x80, 0xb4, 0x00, 0xc0, 0x4f, 0xd4, 0x30,
     0xc8, 0x62, 0x69, 0x74, 0x74, 0x65, 0x72, 0x68, 0x61, 0x72, 0x76, 0x65, 0x73, 0x74, 0x2d,
     0x70, 0x61, 0x63, 0x6b, 0x2d, 0x61, 0x62, 0x63, 0x31, 0x32, 0x33, 0x80, 0x00, 0x00, 0x00,
     0x00, 0x00, 0x00, 0x00, 0x00, 0x00, 0x00, 0x00, 0x00, 0x00, 0x00, 0x00, 0x00, 0x00, 0x00,
     0x00, 0x00, 0x01, 0x48] =
     (case (0x67452301, 0xefcdab89, 0x98badcfe, 0x10325476, 0xc3d2e1f0) of
        (h0, h1, h2, h3, h4) \<Rightarrow>
          case (0xd2e9cc36, 0xb376c057, 0xf770b7d2, 0x39dfb453, 0x4bd29976) of
            (a, b, c, d, e) \<Rightarrow> (h0 + a, h1 + b, h2 + c, h3 + d, h4 + e))"
    by (simp only: sha1_block_def words_abc123 schedule_abc123 rounds_abc123)
  then show ?thesis
    by simp
qed

lemma sha1_abc123:
  "sha1 (NAMESPACE_DNS @
     [0x62, 0x69, 0x74, 0x74, 0x65, 0x72, 0x68, 0x61, 0x72, 0x76, 0x65, 0x73, 0x74, 0x2d, 0x70,
     0x61, 0x63, 0x6b, 0x2d, 0x61, 0x62, 0x63, 0x31, 0x32, 0x33]) =
     [0x3a, 0x2e, 0xef, 0x37, 0xa3, 0x44, 0x6b, 0xe0, 0x90, 0x2b, 0x94, 0xd0, 0x4a, 0x12, 0x08,
     0xc9, 0x0f, 0xa5, 0x7b, 0x66]"
proof -
  let ?p = "[0x6b, 0xa7, 0xb8, 0x10, 0x9d, 0xad, 0x11, 0xd1, 0x80, 0xb4, 0x00, 0xc0, 0x4f, 0xd4, 0x30,
     0xc8, 0x62, 0x69, 0x74, 0x74, 0x65, 0x72, 0x68, 0x61, 0x72, 0x76, 0x65, 0x73, 0x74, 0x2d,
     0x70, 0x61, 0x63, 0x6b, 0x2d, 0x61, 0x62, 0x63, 0x31, 0x32, 0x33, 0x80, 0x00, 0x00, 0x00,
     0x00, 0x00, 0x00, 0x00, 0x00, 0x00, 0x00, 0x00, 0x00, 0x00, 0x00, 0x00, 0x00, 0x00, 0x00,
     0x00, 0x00, 0x01, 0x48] :: byte list"
  have t: "take 64 ?p = ?p" "drop 64 ?p = []" "?p \<noteq> []"
    by simp_all
  have "sha1_blocks (0x67452301, 0xefcdab89, 0x98badcfe, 0x10325476, 0xc3d2e1f0) ?p =
      sha1_blocks (0x3a2eef37, 0xa3446be0, 0x902b94d0, 0x4a1208c9, 0x0fa57b66) []"
    by (subst sha1_blocks.simps) (simp only: t block_abc123 if_False)
  then have "sha1_blocks (0x67452301, 0xefcdab89, 0x98badcfe, 0x10325476, 0xc3d2e1f0) ?p =
      (0x3a2eef37, 0xa3446be0, 0x902b94d0, 0x4a1208c9, 0x0fa57b66)"
    by (simp add: sha1_blocks.simps [of _ "[]"])
  then show ?thesis
    by (simp add: sha1_def pad_abc123 word_bytes_def)
qed

lemma generate_pack_uuid_abc123:
  "generate_pack_uuid (py ''abc123'') = Inr (py ''3a2eef37-a344-5be0-902b-94d04a1208c9'')"
  by (simp add: generate_pack_uuid_def uuid5_def name_abc123 sha1_abc123 uuid_from_bytes_def
      int_from_bytes_def uuid_str_def hex32_def hex_digit_def upt_unfold)
     (simp add: py_def)


























text \<open>
  C10 (escaping is not idempotent). Escaping an escaped URL keeps each backslash and escapes
  each colon again, so a URL with a colon comes out different the second time.
\<close>

theorem escaping_not_idempotent:
  assumes "0x3A \<in> set url"
  shows "replace_colon (replace_colon url) \<noteq> replace_colon url
    \<and> replace_colon (replace_colon url)
        = concat (map (\<lambda>c. if c = 0x3A then [0x5C, 0x5C, 0x3A] else [c]) url)"
proof -
  from assms have "count_list (replace_colon url) 0x3A \<noteq> 0"
    by (simp add: count_replace_colon count_list_0_iff)
  then have "0x3A \<in> set (replace_colon url)" by (simp add: count_list_0_iff)
  then have "length (replace_colon url) < length (replace_colon (replace_colon url))"
    by (rule replace_colon_grows)
  then have "replace_colon (replace_colon url) \<noteq> replace_colon url" by auto
  then show ?thesis by (simp add: replace_colon_twice)
qed

theorem escaping_not_idempotent_witness:
  "0x3A \<in> set (py ''http://x'')
   \<and> replace_colon (py ''http://x'') = py ''http'' @ [0x5C] @ py ''://x''
   \<and> replace_colon (replace_colon (py ''http://x'')) = py ''http'' @ [0x5C, 0x5C] @ py ''://x''
   \<and> replace_colon (replace_colon (py ''http://x'')) \<noteq> replace_colon (py ''http://x'')"
proof -
  have c: "0x3A \<in> set (py ''http://x'')" by (simp add: py_def)
  have "replace_colon (py ''http://x'') = py ''http'' @ [0x5C] @ py ''://x''"
    "replace_colon (replace_colon (py ''http://x'')) = py ''http'' @ [0x5C, 0x5C] @ py ''://x''"
    by (simp_all add: py_def)
  with escaping_not_idempotent [OF c] c show ?thesis by simp
qed


section \<open>Reading and writing\<close>

lemma utf8_decode_Nil: "utf8_decode [] = Inr []"
  by (simp add: utf8_decode.simps)

lemma utf8_decode_ascii: "\<forall>b\<in>set bs. unat b < 0x80 \<Longrightarrow> utf8_decode bs = Inr (map unat bs)"
proof (induction bs)
  case Nil
  show ?case by (simp add: utf8_decode_Nil)
next
  case (Cons b bs)
  then have "utf8_decode bs = Inr (map unat bs)" "unat b < 0x80" by simp_all
  then show ?case
    by (simp add: utf8_decode.simps [of "b # bs"] utf8_decode_char_def)
qed

lemma writelines_None:
  "writelines sep ls out = (None, out') \<Longrightarrow>
   out' = out @ encoded_lines sep ls \<and> (\<forall>l\<in>set ls. \<exists>bs. utf8_encode (write_translate sep l) = Inr bs)"
proof (induction ls arbitrary: out)
  case Nil
  then show ?case by (simp add: encoded_lines_def)
next
  case (Cons l ls)
  from Cons.prems obtain bs where bs: "utf8_encode (write_translate sep l) = Inr bs"
    by (cases "utf8_encode (write_translate sep l)") simp_all
  with Cons.prems have "writelines sep ls (out @ bs) = (None, out')" by simp
  from Cons.IH [OF this] bs show ?case by (simp add: encoded_lines_def)
qed

lemma writelines_Some:
  "writelines sep ls out = (Some e, out') \<Longrightarrow>
   \<exists>written bad rest. ls = written @ bad # rest
     \<and> utf8_encode (write_translate sep bad) = Inl e
     \<and> out' = out @ encoded_lines sep written"
proof (induction ls arbitrary: out)
  case Nil
  then show ?case by simp
next
  case (Cons l ls)
  show ?case
  proof (cases "utf8_encode (write_translate sep l)")
    case (Inl e')
    with Cons.prems have "e' = e" "out' = out" by simp_all
    with Inl have "l # ls = [] @ l # ls \<and> utf8_encode (write_translate sep l) = Inl e
        \<and> out' = out @ encoded_lines sep []"
      by (simp add: encoded_lines_def)
    then show ?thesis by blast
  next
    case (Inr bs)
    with Cons.prems have "writelines sep ls (out @ bs) = (Some e, out')" by simp
    from Cons.IH [OF this] obtain written bad rest where
      w: "ls = written @ bad # rest" "utf8_encode (write_translate sep bad) = Inl e"
        "out' = (out @ bs) @ encoded_lines sep written"
      by blast
    with Inr have "l # ls = (l # written) @ bad # rest \<and> utf8_encode (write_translate sep bad) = Inl e
        \<and> out' = out @ encoded_lines sep (l # written)"
      by (simp add: encoded_lines_def)
    then show ?thesis by blast
  qed
qed

lemma writelines_first_fails:
  "utf8_encode (write_translate sep l) = Inl e \<Longrightarrow> writelines sep (l # ls) out = (Some e, out)"
  by simp


lemma print_ascii: "list_all (\<lambda>c. c < 0x80) s \<Longrightarrow> print os s = None"
  by (induction s) (simp_all add: print_def)


lemma update_heading_raises:
  "\<not> stdout_encodes os 0x1F4DD \<Longrightarrow>
   update_server_properties os properties_path url hash_str = (Inl UnicodeEncodeError, os)"
  by (simp add: update_server_properties_def print_def)

lemma update_missing:
  assumes "print os ([0xA, 0x1F4DD] @ py '' Updating server.properties: '' @ properties_path) = None"
    and "files os properties_path = None"
  shows "update_server_properties os properties_path url hash_str
    = (if stdout_encodes os 0x2717 then Inr False else Inl UnicodeEncodeError, os)"
  using assms by (simp add: update_server_properties_def print_def py_def)

text \<open>
  A run that succeeds: the three keys are appended to a file that has none of them.
\<close>

lemma update_example:
  "update_server_properties
     \<lparr>files = [py ''server.properties'' \<mapsto> map of_nat (py ''server-port=25565'' @ [0xA])],
      linesep = [0xA],
      stdout_encodes = (\<lambda>c. c < 0xD800 \<or> 0xDFFF < c)\<rparr>
     (py ''server.properties'') (py ''http://x'') (py ''abc123'')
   = (Inr True,
      \<lparr>files = [py ''server.properties'' \<mapsto>
         map of_nat (py ''server-port=25565'' @ [0xA]
           @ py ''resource-pack=http'' @ [0x5C] @ py ''://x'' @ [0xA]
           @ py ''resource-pack-sha1=abc123'' @ [0xA]
           @ py ''resource-pack-id=3a2eef37-a344-5be0-902b-94d04a1208c9'' @ [0xA])],
       linesep = [0xA],
       stdout_encodes = (\<lambda>c. c < 0xD800 \<or> 0xDFFF < c)\<rparr>)"
proof -
  let ?p = "py ''server.properties''"
  let ?content = "map of_nat (py ''server-port=25565'' @ [0xA]) :: byte list"
  let ?os = "\<lparr>files = [?p \<mapsto> ?content], linesep = [0xA],
      stdout_encodes = (\<lambda>c. c < 0xD800 \<or> 0xDFFF < c)\<rparr>"
  let ?u = "py ''3a2eef37-a344-5be0-902b-94d04a1208c9''"
  let ?keys = "resource_pack_keys (replace_colon (py ''http://x'')) (py ''abc123'') ?u"
  let ?out = "map of_nat (py ''server-port=25565'' @ [0xA]
           @ py ''resource-pack=http'' @ [0x5C] @ py ''://x'' @ [0xA]
           @ py ''resource-pack-sha1=abc123'' @ [0xA]
           @ py ''resource-pack-id=3a2eef37-a344-5be0-902b-94d04a1208c9'' @ [0xA]) :: byte list"
  have "utf8_decode ?content = Inr (map unat ?content)"
    by (rule utf8_decode_ascii) (simp add: py_def)
  then have r: "readlines ?content = Inr [py ''server-port=25565'' @ [0xA]]"
    by (simp add: readlines_def py_def)
  have m: "managed_values (py ''http://x'') (py ''abc123'') = Inr ?keys"
    by (simp add: managed_values_def generate_pack_uuid_abc123)
  define l where "l = py ''server-port=25565'' @ [0xA]"
  define keys where "keys = ?keys"
  have k: "line_key l = Some (py ''server-port'')"
    by (simp add: l_def line_key_def line_eval)
  have rl: "map (rewrite_line keys) [l] = [l]"
    by (simp add: rewrite_line_def k keys_def resource_pack_keys_def py_def)
  have ks: "keys_seen [l] = {py ''server-port''}"
    by (simp add: keys_seen_Cons keys_seen_Nil k)
  have ap: "map (\<lambda>(k, v). key_value_line k v) (filter (\<lambda>(k, v). k \<notin> keys_seen [l]) keys)
      = [py ''resource-pack=http'' @ [0x5C] @ py ''://x'' @ [0xA],
         py ''resource-pack-sha1=abc123'' @ [0xA],
         py ''resource-pack-id=3a2eef37-a344-5be0-902b-94d04a1208c9'' @ [0xA]]"
    by (simp add: ks keys_def resource_pack_keys_def key_value_line_def py_def)
  have "patch_lines keys [l]
      = [l] @ [py ''resource-pack=http'' @ [0x5C] @ py ''://x'' @ [0xA],
         py ''resource-pack-sha1=abc123'' @ [0xA],
         py ''resource-pack-id=3a2eef37-a344-5be0-902b-94d04a1208c9'' @ [0xA]]"
    by (simp only: patch_lines_eq rl ap)
  then have pl: "patch_lines ?keys [py ''server-port=25565'' @ [0xA]]
      = [py ''server-port=25565'' @ [0xA],
         py ''resource-pack=http'' @ [0x5C] @ py ''://x'' @ [0xA],
         py ''resource-pack-sha1=abc123'' @ [0xA],
         py ''resource-pack-id=3a2eef37-a344-5be0-902b-94d04a1208c9'' @ [0xA]]"
    by (simp only: l_def keys_def append.simps)
  have w: "writelines [0xA]
       [py ''server-port=25565'' @ [0xA],
        py ''resource-pack=http'' @ [0x5C] @ py ''://x'' @ [0xA],
        py ''resource-pack-sha1=abc123'' @ [0xA],
        py ''resource-pack-id=3a2eef37-a344-5be0-902b-94d04a1208c9'' @ [0xA]] []
      = (None, ?out)"
    by (simp add: py_def write_translate_def utf8_encode_char_def)
  have s: "linesep ?os = [0xA]" by simp
  have pu: "print_updated (?os\<lparr>files := (files ?os)(?p \<mapsto> ?out)\<rparr>) ?keys = None"
    by (simp add: print_updated_def print_def resource_pack_keys_def py_def)
  have t: "try_body ?os ?p ?content (py ''http://x'') (py ''abc123'')
      = (None, ?os\<lparr>files := (files ?os)(?p \<mapsto> ?out)\<rparr>)"
    by (simp only: try_body_def r m s pl w pu sum.case prod.case option.case Let_def)
  have p1: "print ?os ([0xA, 0x1F4DD] @ py '' Updating server.properties: '' @ ?p) = None"
    by (simp add: print_def py_def)
  have f: "files ?os ?p = Some ?content" by simp
  have "update_server_properties ?os ?p (py ''http://x'') (py ''abc123'')
      = (Inr True, ?os\<lparr>files := (files ?os)(?p \<mapsto> ?out)\<rparr>)"
    by (simp only: update_server_properties_def p1 f t option.case prod.case)
  then show ?thesis by simp
qed


section \<open>The properties of \<open>update_server_properties\<close>\<close>

text \<open>
  C8 (pre-escaping). The value the function enforces for \<open>resource-pack\<close> is the URL with
  every colon replaced by a backslash and a colon; the values for \<open>resource-pack-sha1\<close> and
  \<open>resource-pack-id\<close> are the hash and the derived identity as they are.
\<close>

theorem pre_escaping:
  assumes "encodable hash_str"
  shows "\<exists>pack_uuid. generate_pack_uuid hash_str = Inr pack_uuid
    \<and> managed_values url hash_str =
        Inr [(py ''resource-pack'', concat (map (\<lambda>c. if c = 0x3A then [0x5C, 0x3A] else [c]) url)),
             (py ''resource-pack-sha1'', hash_str),
             (py ''resource-pack-id'', pack_uuid)]"
proof -
  from generate_pack_uuid_encodable [OF assms] obtain p where "generate_pack_uuid hash_str = Inr p"
    by blast
  then show ?thesis
    by (simp add: managed_values_def resource_pack_keys_def replace_colon_concat)
qed

theorem pre_escaping_witness:
  "encodable (py ''abc123'')
   \<and> (\<exists>pack_uuid. managed_values (py ''http://x'') (py ''abc123'') =
        Inr [(py ''resource-pack'', py ''http'' @ [0x5C] @ py ''://x''),
             (py ''resource-pack-sha1'', py ''abc123''),
             (py ''resource-pack-id'', pack_uuid)])"
proof -
  have e: "encodable (py ''abc123'')" by (simp add: encodable_def py_def)
  have "concat (map (\<lambda>c. if c = 0x3A then [0x5C, 0x3A] else [c]) (py ''http://x''))
      = py ''http'' @ [0x5C] @ py ''://x''"
    by (simp add: py_def)
  with pre_escaping [OF e, of "py ''http://x''"] e show ?thesis by auto
qed

text \<open>
  C7. The claim holds that a failure leaves the file on disk as it was. The code opens the
  file for writing, which empties it, before it encodes the first line. Here the URL ends in
  the code point U+DC80 (what a command-line argument with the byte 0x80 becomes), the file
  holds \<open>resource-pack=old\<close>, \<open>server-port=25565\<close> and \<open>motd=hello\<close>, and the console is
  UTF-8: the function returns \<open>False\<close> and the file is empty, the two lines the function
  was to preserve included.
\<close>

theorem write_failure_empties_file:
  "update_server_properties
     \<lparr>files = [py ''server.properties'' \<mapsto>
        map of_nat (py ''resource-pack=old'' @ [0xA] @ py ''server-port=25565'' @ [0xA]
          @ py ''motd=hello'' @ [0xA])],
      linesep = [0xA],
      stdout_encodes = (\<lambda>c. c < 0xD800 \<or> 0xDFFF < c)\<rparr>
     (py ''server.properties'') (py ''http://x/'' @ [0xDC80])
     (py ''da39a3ee5e6b4b0d3255bfef95601890afd80709'')
   = (Inr False,
      \<lparr>files = [py ''server.properties'' \<mapsto> []],
       linesep = [0xA],
       stdout_encodes = (\<lambda>c. c < 0xD800 \<or> 0xDFFF < c)\<rparr>)"
proof -
  let ?p = "py ''server.properties''"
  let ?content = "map of_nat (py ''resource-pack=old'' @ [0xA] @ py ''server-port=25565'' @ [0xA]
          @ py ''motd=hello'' @ [0xA]) :: byte list"
  let ?os = "\<lparr>files = [?p \<mapsto> ?content], linesep = [0xA],
      stdout_encodes = (\<lambda>c. c < 0xD800 \<or> 0xDFFF < c)\<rparr>"
  let ?url = "py ''http://x/'' @ [0xDC80]"
  let ?h = "py ''da39a3ee5e6b4b0d3255bfef95601890afd80709''"
  let ?l = "py ''resource-pack=old'' @ [0xA]"
  let ?ls = "[?l, py ''server-port=25565'' @ [0xA], py ''motd=hello'' @ [0xA]]"
  have "utf8_decode ?content = Inr (map unat ?content)"
    by (rule utf8_decode_ascii) (simp add: py_def)
  then have r: "readlines ?content = Inr ?ls"
    by (simp add: readlines_def py_def)
  have "encodable ?h" by (simp add: encodable_def py_def)
  then obtain u where "generate_pack_uuid ?h = Inr u"
    using generate_pack_uuid_encodable by blast
  then have m: "managed_values ?url ?h = Inr (resource_pack_keys (replace_colon ?url) ?h u)"
    by (simp add: managed_values_def)
  have k: "line_key ?l = Some (py ''resource-pack'')"
    by (simp add: line_key_def line_eval)
  have "rewrite_line (resource_pack_keys (replace_colon ?url) ?h u) ?l
      = key_value_line (py ''resource-pack'') (replace_colon ?url)"
    by (rule rewrite_line_managed [OF k]) (simp add: resource_pack_keys_def)
  then obtain rest where
    "patch_lines (resource_pack_keys (replace_colon ?url) ?h u) ?ls
       = key_value_line (py ''resource-pack'') (replace_colon ?url) # rest"
    by (simp add: patch_lines_eq)
  moreover have "utf8_encode (write_translate [0xA] (key_value_line (py ''resource-pack'') (replace_colon ?url)))
      = Inl UnicodeEncodeError"
    by (simp add: key_value_line_def py_def write_translate_def utf8_encode_char_def)
  ultimately have w: "writelines [0xA] (patch_lines (resource_pack_keys (replace_colon ?url) ?h u) ?ls) []
      = (Some UnicodeEncodeError, [])"
    by (simp add: writelines_first_fails)
  have s: "linesep ?os = [0xA]" by simp
  have t: "try_body ?os ?p ?content ?url ?h
      = (Some UnicodeEncodeError, ?os\<lparr>files := (files ?os)(?p \<mapsto> [])\<rparr>)"
    by (simp only: try_body_def r m s w sum.case prod.case option.case)
  have p1: "print ?os ([0xA, 0x1F4DD] @ py '' Updating server.properties: '' @ ?p) = None"
    by (simp add: print_def py_def)
  have p2: "print (?os\<lparr>files := (files ?os)(?p \<mapsto> [])\<rparr>) (py ''  '' @ [0x2717] @ py '' Failed: '') = None"
    by (simp add: print_def py_def)
  have f: "files ?os ?p = Some ?content" by simp
  have "update_server_properties ?os ?p ?url ?h = (Inr False, ?os\<lparr>files := (files ?os)(?p \<mapsto> [])\<rparr>)"
    by (simp only: update_server_properties_def p1 f t p2 option.case prod.case)
  then show ?thesis by simp
qed

end
